theory Spec2Isabelle
  imports Main "HOL-Library.AList"
begin

section \<open>JavaScript values\<close>

text \<open>
  The hub of \<^verbatim>\<open>src/services/MCPIntegrationHub.ts\<close> passes values of type \<^verbatim>\<open>any\<close>
  around (connector parameters, workflow variables, response data). They are modelled by
  a datatype of JSON-like values with \<^verbatim>\<open>undefined\<close>: finite trees, so no value
  contains itself. Numbers are restricted to integers of magnitude below \<open>10\<^sup>2\<^sup>1\<close>
  (beyond it JavaScript prints an exponent) and strings to ASCII text. An object is the
  list of its own properties in enumeration order; property names, header names
  included, are taken to be non-numeric, so that enumeration order is insertion order.
  A well-formed object has distinct keys.
\<close>

datatype jsval =
    JUndefined
  | JNull
  | JBool bool
  | JNum int
  | JStr string
  | JArr "jsval list"
  | JObj "(string \<times> jsval) list"

text \<open>Truthiness, as used by \<^verbatim>\<open>!x\<close>, \<^verbatim>\<open>x || y\<close>, \<^verbatim>\<open>x ? a : b\<close>.\<close>

fun truthy :: "jsval \<Rightarrow> bool" where
  "truthy JUndefined = False"
| "truthy JNull = False"
| "truthy (JBool b) = b"
| "truthy (JNum n) = (n \<noteq> 0)"
| "truthy (JStr s) = (s \<noteq> [])"
| "truthy (JArr xs) = True"
| "truthy (JObj kvs) = True"

text \<open>An optional string field is falsy when it is absent or empty.\<close>

fun truthyStr :: "string option \<Rightarrow> bool" where
  "truthyStr None = False"
| "truthyStr (Some s) = (s \<noteq> [])"

fun showNat :: "nat \<Rightarrow> string" where
  "showNat n = (if n < 10 then [char_of (48 + n)] else showNat (n div 10) @ [char_of (48 + n mod 10)])"

definition showInt :: "int \<Rightarrow> string" where
  "showInt i = (if i < 0 then CHR ''-'' # showNat (nat (- i)) else showNat (nat i))"

fun join :: "string \<Rightarrow> string list \<Rightarrow> string" where
  "join sep [] = []"
| "join sep [x] = x"
| "join sep (x # y # ys) = x @ sep @ join sep (y # ys)"

text \<open>
  \<^verbatim>\<open>String(v)\<close>, the coercion of template literals and of \<^verbatim>\<open>+=\<close> on strings.
  An array joins its elements with commas, \<^verbatim>\<open>null\<close> and \<^verbatim>\<open>undefined\<close> elements
  giving the empty string.
\<close>

fun toStr :: "jsval \<Rightarrow> string" where
  "toStr JUndefined = ''undefined''"
| "toStr JNull = ''null''"
| "toStr (JBool b) = (if b then ''true'' else ''false'')"
| "toStr (JNum n) = showInt n"
| "toStr (JStr s) = s"
| "toStr (JArr xs) =
     join '','' (map (\<lambda>x. if x = JUndefined \<or> x = JNull then [] else toStr x) xs)"
| "toStr (JObj kvs) = ''[object Object]''"

text \<open>An optional string inside a template literal.\<close>

fun strOrUndefined :: "string option \<Rightarrow> string" where
  "strOrUndefined None = ''undefined''"
| "strOrUndefined (Some s) = s"

text \<open>
  Property read \<^verbatim>\<open>v.k\<close>. Reading a property of \<^verbatim>\<open>null\<close> or \<^verbatim>\<open>undefined\<close>
  throws a TypeError (\<open>Inl\<close> carries \<^verbatim>\<open>String(error)\<close>); a missing property is
  \<^verbatim>\<open>undefined\<close>. Inherited properties of primitives and arrays are not modelled: the
  hub only reads the keys path, data, args, content and sql.
\<close>

fun getProp :: "jsval \<Rightarrow> string \<Rightarrow> string + jsval" where
  "getProp JUndefined k =
     Inl (''TypeError: Cannot read properties of undefined (reading '' @ [CHR 0x27] @ k @ [CHR 0x27] @ '')'')"
| "getProp JNull k =
     Inl (''TypeError: Cannot read properties of null (reading '' @ [CHR 0x27] @ k @ [CHR 0x27] @ '')'')"
| "getProp (JObj kvs) k = Inr (case map_of kvs k of None \<Rightarrow> JUndefined | Some v \<Rightarrow> v)"
| "getProp v k = Inr JUndefined"

text \<open>\<^verbatim>\<open>JSON.stringify\<close>: a string is quoted with the JSON escapes.\<close>

definition hexDigit :: "nat \<Rightarrow> char" where
  "hexDigit n = (if n < 10 then char_of (48 + n) else char_of (87 + n))"

definition escapeChar :: "char \<Rightarrow> string" where
  "escapeChar c =
     (if c = CHR 0x22 then [CHR 0x5C, CHR 0x22]
      else if c = CHR 0x5C then [CHR 0x5C, CHR 0x5C]
      else if c = CHR 0x08 then [CHR 0x5C, CHR ''b'']
      else if c = CHR 0x09 then [CHR 0x5C, CHR ''t'']
      else if c = CHR 0x0A then [CHR 0x5C, CHR ''n'']
      else if c = CHR 0x0C then [CHR 0x5C, CHR ''f'']
      else if c = CHR 0x0D then [CHR 0x5C, CHR ''r'']
      else if (of_char c :: nat) < 32
        then [CHR 0x5C, CHR ''u'', CHR ''0'', CHR ''0'', hexDigit (of_char c div 16), hexDigit (of_char c mod 16)]
      else [c])"

definition quoteJSON :: "string \<Rightarrow> string" where
  "quoteJSON s = [CHR 0x22] @ concat (map escapeChar s) @ [CHR 0x22]"

text \<open>
  \<^verbatim>\<open>JSON.stringify(v)\<close> is \<^verbatim>\<open>undefined\<close> (\<open>None\<close>) for \<^verbatim>\<open>undefined\<close>. Inside an
  array \<^verbatim>\<open>undefined\<close> is written \<^verbatim>\<open>null\<close>; inside an object a property whose value
  is \<^verbatim>\<open>undefined\<close> is left out. The properties of an object are written in
  enumeration order: nothing sorts them.
\<close>

fun stringify :: "jsval \<Rightarrow> string option" where
  "stringify JUndefined = None"
| "stringify JNull = Some ''null''"
| "stringify (JBool b) = Some (if b then ''true'' else ''false'')"
| "stringify (JNum n) = Some (showInt n)"
| "stringify (JStr s) = Some (quoteJSON s)"
| "stringify (JArr xs) =
     Some (''['' @ join '','' (map (\<lambda>x. case stringify x of None \<Rightarrow> ''null'' | Some s \<Rightarrow> s) xs) @ '']'')"
| "stringify (JObj kvs) =
     Some (''{'' @ join '','' (concat (map (\<lambda>kv. case stringify (snd kv) of None \<Rightarrow> []
              | Some s \<Rightarrow> [quoteJSON (fst kv) @ '':'' @ s]) kvs)) @ ''}'')"

text \<open>\<^verbatim>\<open>String.prototype.trim\<close> on ASCII text: tab, LF, VT, FF, CR and space.\<close>

definition isWhiteSpace :: "char \<Rightarrow> bool" where
  "isWhiteSpace c = (c \<in> {CHR 0x09, CHR 0x0A, CHR 0x0B, CHR 0x0C, CHR 0x0D, CHR 0x20})"

definition trim :: "string \<Rightarrow> string" where
  "trim s = rev (dropWhile isWhiteSpace (rev (dropWhile isWhiteSpace s)))"

text \<open>\<^verbatim>\<open>Buffer.from(s).toString('base64')\<close> on ASCII text.\<close>

definition b64 :: "nat \<Rightarrow> char" where
  "b64 n = ''ABCDEFGHIJKLMNOPQRSTUVWXYZabcdefghijklmnopqrstuvwxyz0123456789+/'' ! (n mod 64)"

fun base64 :: "nat list \<Rightarrow> string" where
  "base64 [] = []"
| "base64 [a] = [b64 (a div 4), b64 ((a mod 4) * 16), CHR ''='', CHR ''='']"
| "base64 [a, b] =
     [b64 (a div 4), b64 ((a mod 4) * 16 + b div 16), b64 ((b mod 16) * 4), CHR ''='']"
| "base64 (a # b # c # rest) =
     [b64 (a div 4), b64 ((a mod 4) * 16 + b div 16), b64 ((b mod 16) * 4 + c div 64), b64 (c mod 64)]
     @ base64 rest"

definition toBase64 :: "string \<Rightarrow> string" where
  "toBase64 s = base64 (map of_char s)"

section \<open>Data model\<close>

text \<open>
  The interfaces of the source as records. An optional field \<^verbatim>\<open>f?: T\<close> is an
  \<open>option\<close>. The fields \<^verbatim>\<open>id\<close>, \<^verbatim>\<open>name\<close>, \<^verbatim>\<open>type\<close>, \<^verbatim>\<open>description\<close>, \<^verbatim>\<open>enabled\<close>
  and \<^verbatim>\<open>timeout\<close> occur in several interfaces and carry a prefix here.
\<close>

datatype auth_type = Bearer | Basic | Apikey | Oauth

record authentication =
  auth_type :: auth_type
  credentials :: "(string \<times> string) list"

text \<open>
  A header map is a JavaScript object: its values are strings, except that
  \<^verbatim>\<open>addAuthentication\<close> can store \<^verbatim>\<open>undefined\<close> when a credential is missing.
\<close>

type_synonym headers = "(string \<times> jsval) list"

record MCPConnectorConfig =
  endpoint :: "string option"
  apiKey :: "string option"
  command :: "string option"
  filePath :: "string option"
  connectionString :: "string option"
  webhookUrl :: "string option"
  headers :: "headers option"
  timeout :: "nat option"
  retries :: "nat option"
  authentication :: "authentication option"

text \<open>
  The connector type is a string at run time: \<^verbatim>\<open>executeConnector\<close> has a default
  branch for a type outside the five declared ones.
\<close>

datatype connector_type = Api | Cli | File | Database | Webhook | OtherType string

record MCPConnector =
  conn_id :: string
  conn_name :: string
  conn_description :: string
  conn_type :: connector_type
  config :: MCPConnectorConfig
  enabled :: bool
  priority :: int

record MCPContext =
  workspaceRoot :: string
  currentFile :: "string option"
  selectedText :: "string option"
  language :: "string option"
  gitBranch :: "string option"
  timestamp :: int
  userRequest :: string

record MCPResponse =
  success :: bool
  data :: "jsval option"
  error :: "string option"
  metadata :: "jsval option"
  cached :: "bool option"
  duration :: "int option"

text \<open>An object literal \<^verbatim>\<open>{ success: false, error: e }\<close>.\<close>

definition failure :: "string \<Rightarrow> MCPResponse" where
  "failure e = \<lparr>success = False, data = None, error = Some e, metadata = None,
                cached = None, duration = None\<rparr>"

text \<open>An object literal \<^verbatim>\<open>{ success: true, data: d }\<close>.\<close>

definition succeeded :: "jsval \<Rightarrow> MCPResponse" where
  "succeeded d = \<lparr>success = True, data = Some d, error = None, metadata = None,
                  cached = None, duration = None\<rparr>"

datatype step_type = StepConnector | StepAI | StepUser | StepCondition | StepOther string

record WorkflowStep =
  step_id :: string
  step_name :: string
  step_type :: step_type
  connectorId :: "string option"
  prompt :: "string option"
  condition :: "string option"
  onSuccess :: "string option"
  onFailure :: "string option"
  step_timeout :: "nat option"
  required :: "bool option"

record MCPWorkflow =
  wf_id :: string
  wf_name :: string
  wf_description :: string
  triggers :: "string list"
  steps :: "WorkflowStep list"
  variables :: jsval
  wf_enabled :: bool

text \<open>
  The state of the hub: the three \<^verbatim>\<open>Map\<close>s, each as an association list in insertion
  order. \<^verbatim>\<open>Map.get\<close> is \<open>map_of\<close>, \<^verbatim>\<open>Map.set\<close> is \<open>AList.update\<close> and
  \<^verbatim>\<open>Map.delete\<close> is \<open>AList.delete\<close>.
\<close>

record hub =
  connectors :: "(string \<times> MCPConnector) list"
  workflows :: "(string \<times> MCPWorkflow) list"
  responseCache :: "(string \<times> (MCPResponse \<times> int)) list"

section \<open>The outside world\<close>

text \<open>
  Everything the hub awaits from outside is an oracle of the record \<open>world\<close>: the
  readings of \<^verbatim>\<open>Date.now()\<close>, the HTTP exchange, the child process, the file system,
  the AI provider and the evaluation of a condition expression. One \<open>world\<close> serves one
  call of \<^verbatim>\<open>executeConnector\<close> (or one iteration of the workflow loop). Every request
  is assumed to settle: by a response, an error event, the timer or an exception.
\<close>

datatype http_outcome =
    HttpBadUrl string
  | HttpRequestThrow string
  | HttpTimeout
  | HttpError string
  | HttpResponse "nat option" "string option" string jsval

text \<open>
  \<open>HttpBadUrl e\<close>: \<^verbatim>\<open>new URL(url)\<close> threw, inside the \<^verbatim>\<open>try\<close> of the strategy;
  \<open>e\<close> is \<^verbatim>\<open>String(error)\<close>. \<open>HttpRequestThrow e\<close>: \<^verbatim>\<open>request(...)\<close> or
  \<^verbatim>\<open>req.write\<close> threw inside the executor of the returned promise; the promise is
  returned without \<^verbatim>\<open>await\<close>, so its rejection passes the \<^verbatim>\<open>catch\<close> of the strategy
  and reaches the caller. \<open>HttpTimeout\<close>: the timer fired first. \<open>HttpError m\<close>: the
  request emitted \<^verbatim>\<open>'error'\<close> with message \<open>m\<close>. \<open>HttpResponse\<close> carries
  \<^verbatim>\<open>res.statusCode\<close> (declared \<^verbatim>\<open>number | undefined\<close>), \<^verbatim>\<open>res.statusMessage\<close>, the
  body and \<^verbatim>\<open>res.headers\<close>.
\<close>

record http_request =
  req_url :: string
  req_method :: string
  req_headers :: headers
  req_body :: "string option"

datatype exec_outcome =
    ExecOk string string
  | ExecFail string "string option" "string option"

text \<open>
  \<open>ExecOk stdout stderr\<close>: the command exited with status 0. \<open>ExecFail message stdout
  stderr\<close>: \<^verbatim>\<open>execAsync\<close> rejected; the error carries the output when there is any.
\<close>

text \<open>
  A condition expression is run by \<^verbatim>\<open>Function('context', 'with(context) {...}')\<close> on
  the live objects \<^verbatim>\<open>variables\<close> and \<^verbatim>\<open>results\<close>, so besides returning a value or
  throwing (\<open>ev_value = None\<close>) it can change them: the elements of the result array
  (\<open>ev_results\<close>), the array's \<^verbatim>\<open>push\<close> property (\<open>ev_push\<close>, \<open>None\<close> when the
  expression leaves it alone) and the variables of the workflow (\<open>ev_variables\<close>). A
  \<^verbatim>\<open>push\<close> is a function from the array and the new element to the array it leaves,
  or to the exception it throws (\<^verbatim>\<open>results.push = 1\<close> makes every later call throw a
  TypeError). Effects are what the expression has done when it returns or throws; the
  evaluation is assumed to end.
  Outside the model are effects on anything else: global objects, and the envelopes that
  the entries of the log share with the response cache.
\<close>

type_synonym push_fn = "jsval list \<Rightarrow> jsval \<Rightarrow> string + jsval list"

text \<open>\<^verbatim>\<open>Array.prototype.push\<close>\<close>

definition arrayPush :: push_fn where
  "arrayPush xs x = Inr (xs @ [x])"

record eval_outcome =
  ev_value :: "jsval option"
  ev_results :: "jsval list"
  ev_push :: "push_fn option"
  ev_variables :: jsval

text \<open>
  \<^verbatim>\<open>AIProvider.getCodeCompletion\<close> catches its own errors and returns the list of
  suggestions, empty after an error.
\<close>

record world =
  now_check :: int
  now_start :: int
  now_end :: int
  now_store :: int
  now_post :: int
  httpRequest :: "http_request \<Rightarrow> http_outcome"
  jsonParse :: "string \<Rightarrow> jsval option"
  exec :: "string \<Rightarrow> string option \<Rightarrow> exec_outcome"
  readFile :: "jsval \<Rightarrow> string + string"
  writeFile :: "jsval \<Rightarrow> jsval \<Rightarrow> string option"
  appendFile :: "jsval \<Rightarrow> jsval \<Rightarrow> string option"
  access :: "jsval \<Rightarrow> bool"
  stat :: "jsval \<Rightarrow> string + (int \<times> string \<times> bool \<times> bool)"
  getCodeCompletion :: "string \<Rightarrow> string list"
  evalExpr :: "string \<Rightarrow> jsval \<Rightarrow> jsval list \<Rightarrow> eval_outcome"

section \<open>The five dispatch strategies\<close>

text \<open>\<^verbatim>\<open>v || ''\<close> inside a string concatenation.\<close>

definition orEmpty :: "jsval \<Rightarrow> string" where
  "orEmpty v = (if truthy v then toStr v else [])"

text \<open>The lookup \<^verbatim>\<open>auth.credentials.k\<close>.\<close>

definition credential :: "authentication \<Rightarrow> string \<Rightarrow> jsval" where
  "credential auth k = (case map_of (credentials auth) k of None \<Rightarrow> JUndefined | Some s \<Rightarrow> JStr s)"

text \<open>
  \<^verbatim>\<open>addAuthentication\<close> assigns into the header object it is given; the model returns
  the object after the assignment.
\<close>

definition addAuthentication :: "headers \<Rightarrow> authentication \<Rightarrow> headers" where
  "addAuthentication hs auth =
     (case auth_type auth of
        Bearer \<Rightarrow> AList.update ''Authorization'' (JStr (''Bearer '' @ toStr (credential auth ''token''))) hs
      | Basic \<Rightarrow>
          AList.update ''Authorization''
            (JStr (''Basic '' @ toBase64 (toStr (credential auth ''username'') @ '':''
                                           @ toStr (credential auth ''password'')))) hs
      | Apikey \<Rightarrow>
          AList.update
            (if truthy (credential auth ''header'') then toStr (credential auth ''header'') else ''X-API-Key'')
            (credential auth ''key'') hs
      | Oauth \<Rightarrow> hs)"

text \<open>\<^verbatim>\<open>res.statusCode ? res.statusCode < 400 : false\<close>\<close>

definition statusSuccess :: "nat option \<Rightarrow> bool" where
  "statusSuccess st = (case st of None \<Rightarrow> False | Some n \<Rightarrow> if n \<noteq> 0 then n < 400 else False)"

text \<open>\<^verbatim>\<open>res.statusCode && res.statusCode >= 400\<close>\<close>

definition statusFailed :: "nat option \<Rightarrow> bool" where
  "statusFailed st = (case st of None \<Rightarrow> False | Some n \<Rightarrow> n \<noteq> 0 \<and> n \<ge> 400)"

definition statusValue :: "nat option \<Rightarrow> jsval" where
  "statusValue st = (case st of None \<Rightarrow> JUndefined | Some n \<Rightarrow> JNum (int n))"

text \<open>
  The \<^verbatim>\<open>try\<close> block of \<^verbatim>\<open>executeAPIConnector\<close>: the request and its handlers.
  \<open>Inl e\<close> is an exception thrown out of the strategy.
\<close>

definition apiRequest :: "world \<Rightarrow> http_request \<Rightarrow> string + MCPResponse" where
  "apiRequest w req =
     (case httpRequest w req of
        HttpBadUrl e \<Rightarrow> Inr (failure (''API request failed: '' @ e))
      | HttpRequestThrow e \<Rightarrow> Inl e
      | HttpTimeout \<Rightarrow> Inr (failure ''Request timeout'')
      | HttpError m \<Rightarrow> Inr (failure (''API request failed: '' @ m))
      | HttpResponse st msg body rhs \<Rightarrow>
         Inr
          \<lparr>success = statusSuccess st,
           data = Some (case jsonParse w body of Some jsonData \<Rightarrow> jsonData | None \<Rightarrow> JStr body),
           error = (if statusFailed st
                    then Some (''HTTP '' @ toStr (statusValue st) @ '': '' @ strOrUndefined msg)
                    else None),
           metadata = Some (JObj [(''status'', statusValue st), (''headers'', rhs)]),
           cached = None, duration = None\<rparr>)"

text \<open>
  \<^verbatim>\<open>executeAPIConnector\<close>. The destructuring \<^verbatim>\<open>headers = {}\<close> binds the header object
  of the stored configuration itself when there is one, and a fresh object otherwise;
  both \<^verbatim>\<open>addAuthentication\<close> and the \<^verbatim>\<open>Content-Type\<close> assignment write into it. The
  second component is that object when the function returns or throws. \<open>Inl e\<close> is an
  exception thrown out of the function, \<open>e\<close> being \<^verbatim>\<open>String(error)\<close>.
\<close>

definition executeAPIConnector ::
  "world \<Rightarrow> MCPConnector \<Rightarrow> string \<Rightarrow> jsval \<Rightarrow> MCPContext option \<Rightarrow> (string + MCPResponse) \<times> headers" where
  "executeAPIConnector w connector action params context =
     (let hs0 = (case headers (config connector) of None \<Rightarrow> [] | Some hs \<Rightarrow> hs);
          url = (case endpoint (config connector) of None \<Rightarrow> [] | Some e \<Rightarrow> e);
          hs1 = (case authentication (config connector) of None \<Rightarrow> hs0
                 | Some auth \<Rightarrow> addAuthentication hs0 auth)
      in if action = ''get'' \<or> action = ''delete'' then
           (case getProp params ''path'' of
              Inl e \<Rightarrow> (Inl e, hs1)
            | Inr p \<Rightarrow>
                (apiRequest w \<lparr>req_url = url @ orEmpty p,
                   req_method = (if action = ''get'' then ''GET'' else ''DELETE''),
                   req_headers = hs1, req_body = None\<rparr>, hs1))
         else if action = ''post'' \<or> action = ''put'' then
           (case getProp params ''path'' of
              Inl e \<Rightarrow> (Inl e, hs1)
            | Inr p \<Rightarrow>
               (case getProp params ''data'' of
                  Inl e \<Rightarrow> (Inl e, hs1)
                | Inr d \<Rightarrow>
                   (let hs2 = AList.update ''Content-Type'' (JStr ''application/json'') hs1
                    in (apiRequest w \<lparr>req_url = url @ orEmpty p,
                          req_method = (if action = ''post'' then ''POST'' else ''PUT''),
                          req_headers = hs2, req_body = stringify d\<rparr>, hs2))))
         else (Inr (failure (''Unsupported API action: '' @ action)), hs1))"

text \<open>The command line built by \<^verbatim>\<open>executeCLIConnector\<close>.\<close>

definition cliCommand :: "MCPConnector \<Rightarrow> string \<Rightarrow> jsval \<Rightarrow> string + string" where
  "cliCommand connector action params =
     (let fullCommand = (case command (config connector) of None \<Rightarrow> [] | Some c \<Rightarrow> c)
      in if action = ''run'' then
           (case getProp params ''args'' of Inl e \<Rightarrow> Inl e
            | Inr a \<Rightarrow> Inr (fullCommand @ '' '' @ orEmpty a))
         else if action = ''version'' then Inr (fullCommand @ '' --version'')
         else
           (case getProp params ''args'' of Inl e \<Rightarrow> Inl e
            | Inr a \<Rightarrow> Inr (fullCommand @ '' '' @ action @ '' '' @ orEmpty a)))"

text \<open>\<^verbatim>\<open>error.stdout || ''\<close>\<close>

fun outputOrEmpty :: "string option \<Rightarrow> string" where
  "outputOrEmpty None = []"
| "outputOrEmpty (Some s) = s"

definition executeCLIConnector ::
  "world \<Rightarrow> MCPConnector \<Rightarrow> string \<Rightarrow> jsval \<Rightarrow> MCPContext option \<Rightarrow> string + MCPResponse" where
  "executeCLIConnector w connector action params context =
     (case cliCommand connector action params of
        Inl e \<Rightarrow> Inl e
      | Inr fullCommand \<Rightarrow>
          Inr (case exec w fullCommand (map_option workspaceRoot context) of
                 ExecOk out err \<Rightarrow>
                   succeeded (JObj [(''stdout'', JStr (trim out)), (''stderr'', JStr (trim err))])
               | ExecFail message out err \<Rightarrow>
                   (failure (''CLI execution failed: '' @ message))
                     \<lparr>data := Some (JObj [(''stdout'', JStr (outputOrEmpty out)),
                                          (''stderr'', JStr (outputOrEmpty err))])\<rparr>))"

text \<open>\<^verbatim>\<open>params.path || filePath!\<close>\<close>

definition filePathOf :: "MCPConnector \<Rightarrow> jsval \<Rightarrow> jsval" where
  "filePathOf connector p =
     (if truthy p then p
      else (case filePath (config connector) of None \<Rightarrow> JUndefined | Some f \<Rightarrow> JStr f))"

text \<open>
  \<^verbatim>\<open>executeFileConnector\<close>: the whole body is inside \<^verbatim>\<open>try\<close>, so nothing is thrown
  out of it.
\<close>

definition fileFailed :: "string \<Rightarrow> MCPResponse" where
  "fileFailed e = failure (''File operation failed: '' @ e)"

definition executeFileConnector ::
  "world \<Rightarrow> MCPConnector \<Rightarrow> string \<Rightarrow> jsval \<Rightarrow> MCPContext option \<Rightarrow> MCPResponse" where
  "executeFileConnector w connector action params context =
     (if action = ''read'' then
        (case getProp params ''path'' of Inl e \<Rightarrow> fileFailed e
         | Inr p \<Rightarrow>
            (case readFile w (filePathOf connector p) of Inl e \<Rightarrow> fileFailed e
             | Inr content \<Rightarrow> succeeded (JObj [(''content'', JStr content)])))
      else if action = ''write'' \<or> action = ''append'' then
        (case getProp params ''path'' of Inl e \<Rightarrow> fileFailed e
         | Inr p \<Rightarrow>
            (case getProp params ''content'' of Inl e \<Rightarrow> fileFailed e
             | Inr c \<Rightarrow>
                (case (if action = ''write'' then writeFile w else appendFile w)
                        (filePathOf connector p) c of
                   Some e \<Rightarrow> fileFailed e
                 | None \<Rightarrow> succeeded (JObj [(''success'', JBool True)]))))
      else if action = ''exists'' then
        (case getProp params ''path'' of Inl e \<Rightarrow> fileFailed e
         | Inr p \<Rightarrow> succeeded (JObj [(''exists'', JBool (access w (filePathOf connector p)))]))
      else if action = ''stat'' then
        (case getProp params ''path'' of Inl e \<Rightarrow> fileFailed e
         | Inr p \<Rightarrow>
            (case stat w (filePathOf connector p) of Inl e \<Rightarrow> fileFailed e
             | Inr (sz, mtime, isFile, isDirectory) \<Rightarrow>
                 succeeded (JObj [(''size'', JNum sz), (''mtime'', JStr mtime),
                                  (''isFile'', JBool isFile), (''isDirectory'', JBool isDirectory)])))
      else failure (''Unsupported file action: '' @ action))"

text \<open>\<^verbatim>\<open>executeDatabaseConnector\<close>, a stub in the source.\<close>

definition executeDatabaseConnector ::
  "world \<Rightarrow> MCPConnector \<Rightarrow> string \<Rightarrow> jsval \<Rightarrow> MCPContext option \<Rightarrow> MCPResponse" where
  "executeDatabaseConnector w connector action params context =
     (if action = ''query'' then
        (case getProp params ''sql'' of
           Inl e \<Rightarrow> failure (''Database operation failed: '' @ e)
         | Inr q \<Rightarrow>
             succeeded (JObj [(''rows'', JArr []), (''rowCount'', JNum 0),
                              (''query'', if truthy q then q else JStr [])]))
      else if action = ''schema'' then
        succeeded (JObj [(''tables'', JArr [JStr ''users'', JStr ''projects'', JStr ''tasks'']),
                         (''version'', JStr ''1.0.0'')])
      else failure (''Unsupported database action: '' @ action))"

text \<open>The invocation context as the object that \<^verbatim>\<open>JSON.stringify\<close> sees.\<close>

definition optStr :: "string option \<Rightarrow> jsval" where
  "optStr s = (case s of None \<Rightarrow> JUndefined | Some t \<Rightarrow> JStr t)"

definition contextValue :: "MCPContext option \<Rightarrow> jsval" where
  "contextValue context =
     (case context of
        None \<Rightarrow> JUndefined
      | Some c \<Rightarrow>
          JObj [(''workspaceRoot'', JStr (workspaceRoot c)), (''currentFile'', optStr (currentFile c)),
                (''selectedText'', optStr (selectedText c)), (''language'', optStr (language c)),
                (''gitBranch'', optStr (gitBranch c)), (''timestamp'', JNum (timestamp c)),
                (''userRequest'', JStr (userRequest c))])"

text \<open>
  \<^verbatim>\<open>executeWebhookConnector\<close>: the whole body is inside \<^verbatim>\<open>try\<close>, but the promise
  is returned without \<^verbatim>\<open>await\<close>, as in the api strategy. An absent \<^verbatim>\<open>webhookUrl\<close>
  reaches \<^verbatim>\<open>new URL\<close> as \<^verbatim>\<open>undefined\<close>.
\<close>

definition executeWebhookConnector ::
  "world \<Rightarrow> MCPConnector \<Rightarrow> string \<Rightarrow> jsval \<Rightarrow> MCPContext option \<Rightarrow> string + MCPResponse" where
  "executeWebhookConnector w connector action params context =
     (let postData = strOrUndefined (stringify (JObj [(''action'', JStr action), (''params'', params),
                        (''context'', contextValue context), (''timestamp'', JNum (now_post w))]))
      in case httpRequest w \<lparr>req_url = strOrUndefined (webhookUrl (config connector)),
                 req_method = ''POST'',
                 req_headers = [(''Content-Type'', JStr ''application/json''),
                                (''Content-Length'', JNum (int (length postData)))],
                 req_body = Some postData\<rparr> of
           HttpBadUrl e \<Rightarrow> Inr (failure (''Webhook execution failed: '' @ e))
         | HttpRequestThrow e \<Rightarrow> Inl e
         | HttpTimeout \<Rightarrow> Inr (failure ''Webhook timeout'')
         | HttpError m \<Rightarrow> Inr (failure (''Webhook execution failed: '' @ m))
         | HttpResponse st msg body rhs \<Rightarrow>
            Inr
             \<lparr>success = statusSuccess st, data = Some (JStr body),
              error = (if statusFailed st then Some (''Webhook failed: '' @ strOrUndefined msg) else None),
              metadata = None, cached = None, duration = None\<rparr>)"

section \<open>The connector executor\<close>

definition quoted :: "string \<Rightarrow> string" where
  "quoted s = [CHR 0x27] @ s @ [CHR 0x27]"

text \<open>The cache key \<^verbatim>\<open>`${connectorId}:${action}:${JSON.stringify(params)}`\<close>.\<close>

definition cacheKey :: "string \<Rightarrow> string \<Rightarrow> jsval \<Rightarrow> string" where
  "cacheKey connId action params =
     connId @ '':'' @ action @ '':'' @ strOrUndefined (stringify params)"

text \<open>
  The cache read of \<^verbatim>\<open>executeConnector\<close>: an entry counts when
  \<^verbatim>\<open>Date.now() - cached.timestamp < 60000\<close>.
\<close>

definition cacheLookup :: "world \<Rightarrow> string \<Rightarrow> hub \<Rightarrow> MCPResponse option" where
  "cacheLookup w key h =
     (case map_of (responseCache h) key of
        None \<Rightarrow> None
      | Some (response, ts) \<Rightarrow> if now_check w - ts < 60000 then Some response else None)"

text \<open>
  The \<^verbatim>\<open>switch\<close> on the connector type. The header object that
  \<^verbatim>\<open>executeAPIConnector\<close> wrote into is the one of the stored connector when its
  configuration has headers, so the registry entry changes with it. Every connector is
  taken to own its header object.
\<close>

definition dispatch ::
  "world \<Rightarrow> string \<Rightarrow> MCPConnector \<Rightarrow> string \<Rightarrow> jsval \<Rightarrow> MCPContext option \<Rightarrow> hub
     \<Rightarrow> (string + MCPResponse) \<times> hub" where
  "dispatch w connId connector action params context h =
     (case conn_type connector of
        Api \<Rightarrow>
          (let (r, hs) = executeAPIConnector w connector action params context
           in (r, case headers (config connector) of
                    None \<Rightarrow> h
                  | Some old \<Rightarrow>
                      h\<lparr>connectors :=
                          AList.update connId
                            (connector\<lparr>config := (config connector)\<lparr>headers := Some hs\<rparr>\<rparr>)
                            (connectors h)\<rparr>))
      | Cli \<Rightarrow> (executeCLIConnector w connector action params context, h)
      | File \<Rightarrow> (Inr (executeFileConnector w connector action params context), h)
      | Database \<Rightarrow> (Inr (executeDatabaseConnector w connector action params context), h)
      | Webhook \<Rightarrow> (executeWebhookConnector w connector action params context, h)
      | OtherType t \<Rightarrow> (Inr (failure (''Unsupported connector type: '' @ t)), h))"

text \<open>The parameter default \<^verbatim>\<open>params: any = {}\<close> replaces \<^verbatim>\<open>undefined\<close>.\<close>

definition defaultParams :: "jsval \<Rightarrow> jsval" where
  "defaultParams params = (if params = JUndefined then JObj [] else params)"

text \<open>\<^verbatim>\<open>executeConnector\<close>. The result is the envelope and the hub after the call.\<close>

definition executeConnector ::
  "world \<Rightarrow> string \<Rightarrow> string \<Rightarrow> jsval \<Rightarrow> MCPContext option \<Rightarrow> hub \<Rightarrow> MCPResponse \<times> hub" where
  "executeConnector w connId action params0 context h =
     (let params = defaultParams params0
      in case map_of (connectors h) connId of
           None \<Rightarrow> (failure (''Connector '' @ quoted connId @ '' not found''), h)
         | Some connector \<Rightarrow>
             if \<not> enabled connector
             then (failure (''Connector '' @ quoted connId @ '' is disabled''), h)
             else
               (let key = cacheKey connId action params
                in case cacheLookup w key h of
                     Some response \<Rightarrow> (response\<lparr>cached := Some True\<rparr>, h)
                   | None \<Rightarrow>
                      (case dispatch w connId connector action params context h of
                         (Inr response, h1) \<Rightarrow>
                           (let stamped = response\<lparr>duration := Some (now_end w - now_start w)\<rparr>
                            in (stamped,
                                if success stamped
                                then h1\<lparr>responseCache :=
                                          AList.update key (stamped, now_store w) (responseCache h1)\<rparr>
                                else h1))
                       | (Inl e, h1) \<Rightarrow>
                           ((failure (''Connector execution failed: '' @ e))
                              \<lparr>duration := Some (now_end w - now_start w)\<rparr>, h1))))"

text \<open>A sequence of calls, each with its own world.\<close>

fun executeCalls ::
  "(world \<times> string \<times> string \<times> jsval \<times> MCPContext option) list \<Rightarrow> hub \<Rightarrow> hub" where
  "executeCalls [] h = h"
| "executeCalls ((w, connId, action, params, context) # calls) h =
     executeCalls calls (snd (executeConnector w connId action params context h))"

subsection \<open>The registry\<close>

definition emptyConfig :: MCPConnectorConfig where
  "emptyConfig = \<lparr>endpoint = None, apiKey = None, command = None, filePath = None,
                  connectionString = None, webhookUrl = None, headers = None, timeout = None,
                  retries = None, authentication = None\<rparr>"

text \<open>\<^verbatim>\<open>loadBuiltinConnectors\<close>: five \<^verbatim>\<open>Map.set\<close> calls.\<close>

definition loadBuiltinConnectors :: "hub \<Rightarrow> hub" where
  "loadBuiltinConnectors h =
     h\<lparr>connectors :=
         AList.update ''database''
           \<lparr>conn_id = ''database'', conn_name = ''Database Query'',
            conn_description = ''Execute database queries'', conn_type = Database,
            config = emptyConfig\<lparr>timeout := Some 20000, retries := Some 2\<rparr>,
            enabled = False, priority = 60\<rparr>
        (AList.update ''docker''
           \<lparr>conn_id = ''docker'', conn_name = ''Docker CLI'',
            conn_description = ''Docker container management'', conn_type = Cli,
            config = emptyConfig\<lparr>command := Some ''docker'', timeout := Some 30000, retries := Some 1\<rparr>,
            enabled = False, priority = 70\<rparr>
        (AList.update ''slack''
           \<lparr>conn_id = ''slack'', conn_name = ''Slack Webhook'',
            conn_description = ''Send notifications to Slack channels'', conn_type = Webhook,
            config = emptyConfig\<lparr>timeout := Some 5000, retries := Some 2\<rparr>,
            enabled = False, priority = 80\<rparr>
        (AList.update ''jira''
           \<lparr>conn_id = ''jira'', conn_name = ''Jira API'',
            conn_description = ''Jira issue tracking and project management'', conn_type = Api,
            config = emptyConfig\<lparr>timeout := Some 15000, retries := Some 2\<rparr>,
            enabled = False, priority = 90\<rparr>
        (AList.update ''github''
           \<lparr>conn_id = ''github'', conn_name = ''GitHub API'',
            conn_description = ''GitHub repository and issue management'', conn_type = Api,
            config = emptyConfig\<lparr>endpoint := Some ''https://api.github.com'',
                       headers := Some [(''Accept'', JStr ''application/vnd.github.v3+json''),
                                        (''User-Agent'', JStr ''Neon-Agent'')],
                       timeout := Some 10000, retries := Some 3\<rparr>,
            enabled = True, priority = 100\<rparr>
        (connectors h)))))\<rparr>"

text \<open>\<^verbatim>\<open>clearConnectors\<close>, and the hub it leaves when no configuration file exists.\<close>

definition clearConnectors :: "hub \<Rightarrow> hub" where
  "clearConnectors h = loadBuiltinConnectors (h\<lparr>connectors := [], workflows := []\<rparr>)"

definition initialHub :: hub where
  "initialHub = loadBuiltinConnectors \<lparr>connectors = [], workflows = [], responseCache = []\<rparr>"

definition toggleConnector :: "string \<Rightarrow> hub \<Rightarrow> hub" where
  "toggleConnector connId h =
     (case map_of (connectors h) connId of
        None \<Rightarrow> h
      | Some connector \<Rightarrow>
          h\<lparr>connectors :=
              AList.update connId (connector\<lparr>enabled := \<not> enabled connector\<rparr>) (connectors h)\<rparr>)"

text \<open>The sweep of \<^verbatim>\<open>setupCacheCleanup\<close>, run at time \<open>now\<close>.\<close>

definition cacheCleanup :: "int \<Rightarrow> hub \<Rightarrow> hub" where
  "cacheCleanup now h =
     h\<lparr>responseCache := filter (\<lambda>(key, (response, ts)). \<not> (now - ts > 5 * 60 * 1000)) (responseCache h)\<rparr>"

section \<open>The workflow engine\<close>

text \<open>
  The result log is the array \<^verbatim>\<open>const results: any[] = []\<close>; it reaches the caller
  inside \<^verbatim>\<open>data\<close>. Its elements are values, so an envelope is also given as a value;
  an absent field is written as an \<^verbatim>\<open>undefined\<close> property.
\<close>

definition responseValue :: "MCPResponse \<Rightarrow> jsval" where
  "responseValue r =
     JObj [(''success'', JBool (success r)),
           (''data'', case data r of None \<Rightarrow> JUndefined | Some d \<Rightarrow> d),
           (''error'', optStr (error r)),
           (''metadata'', case metadata r of None \<Rightarrow> JUndefined | Some m \<Rightarrow> m),
           (''cached'', case cached r of None \<Rightarrow> JUndefined | Some c \<Rightarrow> JBool c),
           (''duration'', case duration r of None \<Rightarrow> JUndefined | Some d \<Rightarrow> JNum d)]"

text \<open>The object \<^verbatim>\<open>{ stepId: step.id, stepName: step.name, result: stepResult }\<close>.\<close>

definition logEntry :: "WorkflowStep \<Rightarrow> MCPResponse \<Rightarrow> jsval" where
  "logEntry step stepResult =
     JObj [(''stepId'', JStr (step_id step)), (''stepName'', JStr (step_name step)),
           (''result'', responseValue stepResult)]"

text \<open>The object \<^verbatim>\<open>{ workflowResults: results }\<close>.\<close>

definition workflowData :: "jsval list \<Rightarrow> jsval" where
  "workflowData results = JObj [(''workflowResults'', JArr results)]"

text \<open>
  \<^verbatim>\<open>evaluateCondition\<close>: the value of the expression, \<^verbatim>\<open>false\<close> when it throws. The
  value is whatever the expression returns, not only a boolean. The effects of the same
  evaluation are the other fields of the outcome; \<open>execStep\<close> applies them.
\<close>

definition evaluateCondition :: "world \<Rightarrow> string \<Rightarrow> jsval \<Rightarrow> jsval list \<Rightarrow> jsval" where
  "evaluateCondition w cond vars results =
     (case ev_value (evalExpr w cond vars results) of None \<Rightarrow> JBool False | Some v \<Rightarrow> v)"

text \<open>\<^verbatim>\<open>step.condition || 'true'\<close>\<close>

definition conditionExpr :: "WorkflowStep \<Rightarrow> string" where
  "conditionExpr step = (case condition step of None \<Rightarrow> ''true'' | Some c \<Rightarrow> if c = [] then ''true'' else c)"

text \<open>
  The \<^verbatim>\<open>switch\<close> on the step type: the step result, and the hub after the step. The
  \<^verbatim>\<open>catch\<close> of the ai step has no branch, since the provider does not throw.
\<close>

definition runStep ::
  "world \<Rightarrow> MCPWorkflow \<Rightarrow> MCPContext \<Rightarrow> WorkflowStep \<Rightarrow> jsval list \<Rightarrow> hub \<Rightarrow> MCPResponse \<times> hub" where
  "runStep w workflow context step results h =
     (case step_type step of
        StepConnector \<Rightarrow>
          (if \<not> truthyStr (connectorId step) then (failure ''No connector specified'', h)
           else executeConnector w (strOrUndefined (connectorId step)) ''run'' (variables workflow)
                  (Some context) h)
      | StepAI \<Rightarrow>
          (if \<not> truthyStr (prompt step) then (failure ''No prompt specified'', h)
           else (succeeded (JObj [(''response'',
                    JArr (map JStr (getCodeCompletion w (strOrUndefined (prompt step)))))]), h))
      | StepCondition \<Rightarrow>
          (succeeded (JObj [(''result'',
              evaluateCondition w (conditionExpr step) (variables workflow) results)]), h)
      | StepUser \<Rightarrow> (succeeded (JObj [(''userInput'', JStr ''approved'')]), h)
      | StepOther t \<Rightarrow> (failure (''Unknown step type: '' @ t), h))"

text \<open>\<^verbatim>\<open>Array.prototype.findIndex\<close> and the read \<^verbatim>\<open>xs[i]\<close>, undefined out of range.\<close>

fun findIndex :: "('a \<Rightarrow> bool) \<Rightarrow> 'a list \<Rightarrow> int" where
  "findIndex P [] = - 1"
| "findIndex P (x # xs) =
     (if P x then 0 else (let i = findIndex P xs in if i < 0 then - 1 else i + 1))"

definition elementAt :: "'a list \<Rightarrow> int \<Rightarrow> 'a option" where
  "elementAt xs i = (if 0 \<le> i \<and> i < int (length xs) then Some (xs ! nat i) else None)"

text \<open>
  The variables object that a condition expression writes to is the one of the stored
  workflow: the registry entry changes with it.
\<close>

definition storeVariables :: "string \<Rightarrow> jsval \<Rightarrow> hub \<Rightarrow> hub" where
  "storeVariables workflowId vars h =
     h\<lparr>workflows := AList.map_entry workflowId (\<lambda>wfl. wfl\<lparr>variables := vars\<rparr>) (workflows h)\<rparr>"

text \<open>The envelope returned by the \<^verbatim>\<open>catch\<close> around the body of the loop.\<close>

definition stepThrew :: "WorkflowStep \<Rightarrow> string \<Rightarrow> jsval list \<Rightarrow> MCPResponse" where
  "stepThrew step e results =
     (failure (''Workflow execution failed at step '' @ quoted (step_name step) @ '': '' @ e))
       \<lparr>data := Some (workflowData results)\<rparr>"

text \<open>
  One iteration of the \<^verbatim>\<open>while\<close> loop of \<^verbatim>\<open>executeWorkflow\<close>, for the step found
  under \<open>currentStepId\<close>, with the log \<open>results\<close> and its current \<^verbatim>\<open>push\<close>: either
  the workflow returns, or the loop goes on with the next step id, the log, its
  \<^verbatim>\<open>push\<close>, the variables and the hub. The one operation of the body that can throw
  is \<^verbatim>\<open>results.push\<close>, once a condition expression has replaced it; then the
  \<^verbatim>\<open>catch\<close> returns, with the log as it is. A condition step evaluates its expression,
  sets the next step id from its pointers, pushes its entry and continues; every other
  step pushes its entry, tests the halting rule and advances by position.
\<close>

datatype iteration =
    Halt MCPResponse hub
  | Continue "string option" "jsval list" push_fn jsval hub

definition execStep ::
  "world \<Rightarrow> string \<Rightarrow> MCPWorkflow \<Rightarrow> MCPContext \<Rightarrow> WorkflowStep \<Rightarrow> string \<Rightarrow> jsval list \<Rightarrow> push_fn
     \<Rightarrow> hub \<Rightarrow> iteration" where
  "execStep w workflowId workflow context step currentStepId results push h =
     (case step_type step of
        StepCondition \<Rightarrow>
          (let out = evalExpr w (conditionExpr step) (variables workflow) results;
               conditionResult = evaluateCondition w (conditionExpr step) (variables workflow) results;
               results1 = ev_results out;
               push1 = (case ev_push out of None \<Rightarrow> push | Some f \<Rightarrow> f);
               h1 = storeVariables workflowId (ev_variables out) h;
               stepResult = succeeded (JObj [(''result'', conditionResult)])
           in case push1 results1 (logEntry step stepResult) of
                Inl e \<Rightarrow> Halt (stepThrew step e results1) h1
              | Inr results2 \<Rightarrow>
                  Continue (if truthy conditionResult then onSuccess step else onFailure step)
                    results2 push1 (ev_variables out) h1)
      | _ \<Rightarrow>
          (let (stepResult, h1) = runStep w workflow context step results h
           in case push results (logEntry step stepResult) of
                Inl e \<Rightarrow> Halt (stepThrew step e results) h1
              | Inr results1 \<Rightarrow>
                  if \<not> success stepResult \<and> required step = Some True
                  then Halt ((failure (''Required step '' @ quoted (step_name step) @ '' failed: ''
                                       @ strOrUndefined (error stepResult)))
                              \<lparr>data := Some (workflowData results1)\<rparr>) h1
                  else Continue
                         (map_option step_id
                            (elementAt (steps workflow)
                               (findIndex (\<lambda>s. step_id s = currentStepId) (steps workflow) + 1)))
                         results1 push (variables workflow) h1))"

definition completed :: "MCPWorkflow \<Rightarrow> jsval list \<Rightarrow> MCPResponse" where
  "completed workflow results =
     \<lparr>success = True, data = Some (workflowData results), error = None,
      metadata = Some (JObj [(''workflow'', JStr (wf_name workflow))]),
      cached = None, duration = None\<rparr>"

text \<open>
  The loop. It need not end: a condition step may point back, and with a repeated step
  id positional advancement can return to an earlier step. Each iteration consumes one
  world; \<open>None\<close> says that the worlds ran out before the loop ended. The loop ends when
  \<open>currentStepId\<close> is falsy (absent or empty) or names no step.
\<close>

fun workflowLoop ::
  "world list \<Rightarrow> string \<Rightarrow> MCPWorkflow \<Rightarrow> MCPContext \<Rightarrow> string option \<Rightarrow> jsval list \<Rightarrow> push_fn \<Rightarrow> hub
     \<Rightarrow> (MCPResponse \<times> hub) option" where
  "workflowLoop [] workflowId workflow context cur results push h =
     (if \<not> truthyStr cur then Some (completed workflow results, h)
      else (case find (\<lambda>s. step_id s = strOrUndefined cur) (steps workflow) of
              None \<Rightarrow> Some (completed workflow results, h)
            | Some step \<Rightarrow> None))"
| "workflowLoop (w # ws) workflowId workflow context cur results push h =
     (if \<not> truthyStr cur then Some (completed workflow results, h)
      else (case find (\<lambda>s. step_id s = strOrUndefined cur) (steps workflow) of
              None \<Rightarrow> Some (completed workflow results, h)
            | Some step \<Rightarrow>
               (case execStep w workflowId workflow context step (strOrUndefined cur) results push h of
                  Halt r h1 \<Rightarrow> Some (r, h1)
                | Continue next results1 push1 vars1 h1 \<Rightarrow>
                    workflowLoop ws workflowId (workflow\<lparr>variables := vars1\<rparr>) context next
                      results1 push1 h1)))"

text \<open>
  \<^verbatim>\<open>executeWorkflow\<close>; the first step id is \<^verbatim>\<open>workflow.steps[0]?.id\<close>, and the log
  starts as a fresh array.
\<close>

definition executeWorkflow ::
  "world list \<Rightarrow> string \<Rightarrow> MCPContext \<Rightarrow> hub \<Rightarrow> (MCPResponse \<times> hub) option" where
  "executeWorkflow ws workflowId context h =
     (case map_of (workflows h) workflowId of
        None \<Rightarrow> Some (failure (''Workflow '' @ quoted workflowId @ '' not found''), h)
      | Some workflow \<Rightarrow>
          if \<not> wf_enabled workflow
          then Some (failure (''Workflow '' @ quoted workflowId @ '' is disabled''), h)
          else workflowLoop ws workflowId workflow context
                 (map_option step_id (elementAt (steps workflow) 0)) [] arrayPush h)"

section \<open>Sample inputs\<close>

text \<open>An evaluation without effects.\<close>

definition pureOutcome :: "jsval option \<Rightarrow> jsval \<Rightarrow> jsval list \<Rightarrow> eval_outcome" where
  "pureOutcome v vars results =
     \<lparr>ev_value = v, ev_results = results, ev_push = None, ev_variables = vars\<rparr>"

text \<open>
  A world in which every HTTP request is answered with 200 and an empty JSON object, the
  child process prints \<open>ok\<close> with surrounding white space, and the expression
  \<^verbatim>\<open>true\<close> evaluates to \<^verbatim>\<open>true\<close> while every other expression throws; no
  expression has an effect.
\<close>

definition sampleWorld :: world where
  "sampleWorld =
     \<lparr>now_check = 1000, now_start = 1001, now_end = 1041, now_store = 1042, now_post = 1002,
      httpRequest = (\<lambda>req. HttpResponse (Some 200) (Some ''OK'') ''{}'' (JObj [])),
      jsonParse = (\<lambda>s. if s = ''{}'' then Some (JObj []) else None),
      exec = (\<lambda>cmd cwd. ExecOk ('' ok'' @ [CHR 0x0A]) []),
      readFile = (\<lambda>p. Inr ''text''),
      writeFile = (\<lambda>p c. None),
      appendFile = (\<lambda>p c. None),
      access = (\<lambda>p. True),
      stat = (\<lambda>p. Inl ''Error: ENOENT''),
      getCodeCompletion = (\<lambda>p. [''done'']),
      evalExpr = (\<lambda>c vars results.
                    pureOutcome (if c = ''true'' then Some (JBool True) else None) vars results)\<rparr>"

text \<open>
  The same world with two expressions that write to the result array:
  \<^verbatim>\<open>results.push = 1\<close> has the value 1 and leaves a \<^verbatim>\<open>push\<close> that is not a function;
  \<^verbatim>\<open>(results.push = function () { return 0 }, true)\<close> has the value \<^verbatim>\<open>true\<close> and
  leaves a \<^verbatim>\<open>push\<close> that appends nothing.
\<close>

definition meddlingWorld :: world where
  "meddlingWorld =
     sampleWorld\<lparr>evalExpr := (\<lambda>c vars results.
        if c = ''results.push = 1''
        then \<lparr>ev_value = Some (JNum 1), ev_results = results,
              ev_push = Some (\<lambda>xs x. Inl ''TypeError: results.push is not a function''),
              ev_variables = vars\<rparr>
        else if c = ''(results.push = function () { return 0 }, true)''
        then \<lparr>ev_value = Some (JBool True), ev_results = results,
              ev_push = Some (\<lambda>xs x. Inr xs), ev_variables = vars\<rparr>
        else pureOutcome (if c = ''true'' then Some (JBool True) else None) vars results)\<rparr>"

text \<open>The same world, except that the response object carries no status code.\<close>

definition statuslessWorld :: world where
  "statuslessWorld = sampleWorld\<lparr>httpRequest := (\<lambda>req. HttpResponse None None [] (JObj []))\<rparr>"

text \<open>The same world, except that the HTTP server answers 500.\<close>

definition failingWorld :: world where
  "failingWorld =
     sampleWorld\<lparr>httpRequest := (\<lambda>req. HttpResponse (Some 500) (Some ''Internal Server Error'') [] (JObj []))\<rparr>"

text \<open>The same world one second later.\<close>

definition laterWorld :: world where
  "laterWorld = sampleWorld\<lparr>now_check := 2000, now_start := 2001, now_end := 2041, now_store := 2042\<rparr>"

text \<open>The same world, except that the child process fails after printing.\<close>

definition crashWorld :: world where
  "crashWorld = sampleWorld\<lparr>exec := (\<lambda>cmd cwd. ExecFail ''Command failed'' (Some '' partial '') None)\<rparr>"

definition sampleContext :: MCPContext where
  "sampleContext = \<lparr>workspaceRoot = ''/work'', currentFile = None, selectedText = None,
                     language = None, gitBranch = None, timestamp = 1000, userRequest = ''run''\<rparr>"

text \<open>The git connector of the sample configuration file.\<close>

definition gitConnector :: MCPConnector where
  "gitConnector =
     \<lparr>conn_id = ''git-local'', conn_name = ''Local Git'',
      conn_description = ''Execute local git commands'', conn_type = Cli,
      config = emptyConfig\<lparr>command := Some ''git'', timeout := Some 10000\<rparr>,
      enabled = True, priority = 80\<rparr>"

definition sampleStep :: "string \<Rightarrow> step_type \<Rightarrow> WorkflowStep" where
  "sampleStep i t = \<lparr>step_id = i, step_name = i, step_type = t, connectorId = None, prompt = None,
                      condition = None, onSuccess = None, onFailure = None, step_timeout = None,
                      required = None\<rparr>"

definition sampleWorkflow :: "string \<Rightarrow> WorkflowStep list \<Rightarrow> MCPWorkflow" where
  "sampleWorkflow i ss = \<lparr>wf_id = i, wf_name = i, wf_description = [], triggers = [], steps = ss,
                           variables = JObj [], wf_enabled = True\<rparr>"

text \<open>The hub after start-up with one workflow loaded under its id.\<close>

definition hubWith :: "MCPWorkflow \<Rightarrow> hub" where
  "hubWith workflow = initialHub\<lparr>workflows := [(wf_id workflow, workflow)]\<rparr>"


text \<open>
  A workflow that starts with a condition step, required, whose pointers skip the step
  that follows it in the array.
\<close>

definition checkStep :: "string \<Rightarrow> WorkflowStep" where
  "checkStep c = (sampleStep ''check'' StepCondition)
                   \<lparr>condition := Some c, onSuccess := Some ''yes'', onFailure := Some ''no'',
                    required := Some True\<rparr>"

definition branchingWorkflow :: "string \<Rightarrow> MCPWorkflow" where
  "branchingWorkflow c =
     sampleWorkflow ''branching''
       [checkStep c, sampleStep ''skipped'' StepUser, sampleStep ''no'' StepUser,
        sampleStep ''yes'' StepUser]"

text \<open>A workflow of one condition step, required, with the expression \<open>c\<close>.\<close>

definition gateWorkflow :: "string \<Rightarrow> MCPWorkflow" where
  "gateWorkflow c =
     sampleWorkflow ''gate''
       [(sampleStep ''gate'' StepCondition)\<lparr>condition := Some c, required := Some True\<rparr>]"


section \<open>Invariants\<close>

text \<open>Every envelope held by the response cache is a successful one.\<close>

definition cacheAllSuccess :: "hub \<Rightarrow> bool" where
  "cacheAllSuccess h = list_all (\<lambda>(key, (response, ts)). success response) (responseCache h)"

text \<open>
  Text that \<^verbatim>\<open>JSON.stringify\<close> writes between quotes as it is: no quote, no backslash,
  no control character.
\<close>

definition plainChar :: "char \<Rightarrow> bool" where
  "plainChar c = (c \<noteq> CHR 0x22 \<and> c \<noteq> CHR 0x5C \<and> 32 \<le> (of_char c :: nat))"

text \<open>The text of one property whose value is a string, for such keys and values.\<close>

definition memberText :: "string \<times> string \<Rightarrow> string" where
  "memberText kv = CHR 0x22 # fst kv @ CHR 0x22 # CHR '':'' # CHR 0x22 # snd kv @ [CHR 0x22]"

section \<open>Auxiliary lemmas\<close>

lemma list_all_update:
  "list_all P al \<Longrightarrow> P (k, v) \<Longrightarrow> list_all P (AList.update k v al)"
  by (induction al) auto

lemma dispatch_cache:
  "dispatch w c conn a p ctx h = (r, h1) \<Longrightarrow> responseCache h1 = responseCache h"
  by (auto simp: dispatch_def split: connector_type.splits option.splits prod.splits)

lemma dispatch_enabled:
  "dispatch w c conn a p ctx h = (r, h1) \<Longrightarrow> map_of (connectors h) c = Some conn \<Longrightarrow>
     \<exists>conn1. map_of (connectors h1) c = Some conn1 \<and> enabled conn1 = enabled conn"
  by (auto simp: dispatch_def update_conv' split: connector_type.splits option.splits prod.splits)

lemma apiRequest_cached: "apiRequest w req = Inr r \<Longrightarrow> cached r = None"
  by (auto simp: apiRequest_def failure_def split: http_outcome.splits)

lemma executeAPIConnector_cached:
  "executeAPIConnector w conn a p ctx = (Inr r, hs) \<Longrightarrow> cached r = None"
  by (auto simp: executeAPIConnector_def Let_def failure_def
           split: sum.splits if_splits dest: apiRequest_cached)

lemma executeCLIConnector_cached:
  "executeCLIConnector w conn a p ctx = Inr r \<Longrightarrow> cached r = None"
  by (auto simp: executeCLIConnector_def failure_def succeeded_def
           split: sum.splits exec_outcome.splits)

lemma executeFileConnector_cached: "cached (executeFileConnector w conn a p ctx) = None"
  by (simp add: executeFileConnector_def fileFailed_def failure_def succeeded_def
           split: sum.splits option.splits prod.splits)

lemma executeDatabaseConnector_cached: "cached (executeDatabaseConnector w conn a p ctx) = None"
  by (simp add: executeDatabaseConnector_def failure_def succeeded_def split: sum.splits)

lemma executeWebhookConnector_cached:
  "executeWebhookConnector w conn a p ctx = Inr r \<Longrightarrow> cached r = None"
  by (auto simp: executeWebhookConnector_def failure_def Let_def split: http_outcome.splits)

lemma dispatch_cached_None:
  "dispatch w c conn a p ctx h = (Inr r, h1) \<Longrightarrow> cached r = None"
  by (auto simp: dispatch_def executeCLIConnector_cached executeFileConnector_cached
        executeDatabaseConnector_cached failure_def
      split: connector_type.splits prod.splits
      dest: executeAPIConnector_cached executeWebhookConnector_cached)

lemma executeConnector_cacheAllSuccess:
  "cacheAllSuccess h \<Longrightarrow> cacheAllSuccess (snd (executeConnector w c a p ctx h))"
  unfolding executeConnector_def Let_def cacheAllSuccess_def
  by (auto split: option.splits prod.splits sum.splits dest!: dispatch_cache intro!: list_all_update)

lemma executeCalls_cacheAllSuccess:
  "cacheAllSuccess h \<Longrightarrow> cacheAllSuccess (executeCalls calls h)"
  by (induction calls arbitrary: h) (auto simp: executeConnector_cacheAllSuccess)

lemma executeConnector_failed_cache:
  "\<not> success (fst (executeConnector w c a p ctx h)) \<Longrightarrow>
     responseCache (snd (executeConnector w c a p ctx h)) = responseCache h"
  unfolding executeConnector_def Let_def
  by (auto split: option.splits prod.splits sum.splits if_splits dest!: dispatch_cache)

text \<open>
  A call that was not answered from the cache and succeeded went through dispatch, kept
  the connector enabled and stored its envelope under the cache key.
\<close>

lemma executeConnector_stored:
  assumes "executeConnector w c a p ctx h = (r1, h1)" "success r1" "cached r1 \<noteq> Some True"
  shows "\<exists>conn1. map_of (connectors h1) c = Some conn1 \<and> enabled conn1"
    and "map_of (responseCache h1) (cacheKey c a (defaultParams p)) = Some (r1, now_store w)"
    and "duration r1 = Some (now_end w - now_start w)"
  using assms unfolding executeConnector_def Let_def
  by (auto simp: failure_def update_conv' split: option.splits prod.splits sum.splits if_splits
           dest: dispatch_enabled)

lemma initialHub_cache: "responseCache initialHub = []"
  by (simp add: initialHub_def loadBuiltinConnectors_def)

lemma initialHub_github:
  "map_of (connectors initialHub) ''github'' =
     Some \<lparr>conn_id = ''github'', conn_name = ''GitHub API'',
            conn_description = ''GitHub repository and issue management'', conn_type = Api,
            config = emptyConfig\<lparr>endpoint := Some ''https://api.github.com'',
                       headers := Some [(''Accept'', JStr ''application/vnd.github.v3+json''),
                                        (''User-Agent'', JStr ''Neon-Agent'')],
                       timeout := Some 10000, retries := Some 3\<rparr>,
            enabled = True, priority = 100\<rparr>"
  by (simp add: initialHub_def loadBuiltinConnectors_def update_conv')

lemma initialHub_jira:
  "map_of (connectors initialHub) ''jira'' =
     Some \<lparr>conn_id = ''jira'', conn_name = ''Jira API'',
            conn_description = ''Jira issue tracking and project management'', conn_type = Api,
            config = emptyConfig\<lparr>timeout := Some 15000, retries := Some 2\<rparr>,
            enabled = False, priority = 90\<rparr>"
  by (simp add: initialHub_def loadBuiltinConnectors_def update_conv')

lemma failing_call:
  "\<not> success (fst (executeConnector failingWorld ''github'' ''get'' (JObj []) None initialHub))"
  by (simp add: executeConnector_def initialHub_github initialHub_cache cacheLookup_def
        dispatch_def executeAPIConnector_def apiRequest_def emptyConfig_def defaultParams_def
        failingWorld_def sampleWorld_def statusSuccess_def statusFailed_def Let_def)

lemma first_call:
  "success (fst (executeConnector sampleWorld ''github'' ''get'' (JObj []) None initialHub))"
  "cached (fst (executeConnector sampleWorld ''github'' ''get'' (JObj []) None initialHub)) = None"
  by (simp_all add: executeConnector_def initialHub_github initialHub_cache cacheLookup_def
        dispatch_def executeAPIConnector_def apiRequest_def emptyConfig_def defaultParams_def
        sampleWorld_def statusSuccess_def statusFailed_def Let_def)

lemma toggled_docker:
  "map_of (connectors (toggleConnector ''docker'' initialHub)) ''docker'' =
     Some \<lparr>conn_id = ''docker'', conn_name = ''Docker CLI'',
            conn_description = ''Docker container management'', conn_type = Cli,
            config = emptyConfig\<lparr>command := Some ''docker'', timeout := Some 30000, retries := Some 1\<rparr>,
            enabled = True, priority = 70\<rparr>"
  by (simp add: toggleConnector_def initialHub_def loadBuiltinConnectors_def update_conv')

lemma toggled_cache: "responseCache (toggleConnector ''docker'' initialHub) = []"
  by (simp add: toggleConnector_def initialHub_def loadBuiltinConnectors_def update_conv')

lemma status_failed:
  "st \<noteq> None \<Longrightarrow> st \<noteq> Some 0 \<Longrightarrow> \<not> statusSuccess st \<Longrightarrow> statusFailed st"
  by (cases st) (auto simp: statusSuccess_def statusFailed_def)

lemma apiRequest_error:
  assumes "\<And>st msg body rhs. httpRequest w req = HttpResponse st msg body rhs \<Longrightarrow> st \<noteq> None \<and> st \<noteq> Some 0"
    and "apiRequest w req = Inr r" and "\<not> success r"
  shows "error r \<noteq> None"
proof (cases "httpRequest w req")
  case (HttpResponse st msg body rhs)
  with assms(1) have "st \<noteq> None" "st \<noteq> Some 0" by blast+
  moreover from HttpResponse assms(2,3) have "\<not> statusSuccess st" by (auto simp: apiRequest_def)
  ultimately have "statusFailed st" by (rule status_failed)
  with HttpResponse assms(2) show ?thesis by (auto simp: apiRequest_def)
qed (use assms(2) in \<open>auto simp: apiRequest_def failure_def\<close>)

lemma executeAPIConnector_error:
  assumes "\<And>req st msg body rhs. httpRequest w req = HttpResponse st msg body rhs \<Longrightarrow> st \<noteq> None \<and> st \<noteq> Some 0"
    and "executeAPIConnector w conn a p ctx = (Inr r, hs)" and "\<not> success r"
  shows "error r \<noteq> None"
  using assms(2,3) apiRequest_error [OF assms(1)]
  by (auto simp: executeAPIConnector_def Let_def failure_def split: sum.splits if_splits)

lemma executeCLIConnector_error:
  "executeCLIConnector w conn a p ctx = Inr r \<Longrightarrow> \<not> success r \<Longrightarrow> error r \<noteq> None"
  by (auto simp: executeCLIConnector_def failure_def succeeded_def
           split: sum.splits exec_outcome.splits)

lemma executeFileConnector_error:
  "success (executeFileConnector w conn a p ctx) \<or> error (executeFileConnector w conn a p ctx) \<noteq> None"
  by (simp add: executeFileConnector_def fileFailed_def failure_def succeeded_def
           split: sum.split option.split prod.split)

lemma executeDatabaseConnector_error:
  "success (executeDatabaseConnector w conn a p ctx) \<or>
     error (executeDatabaseConnector w conn a p ctx) \<noteq> None"
  by (simp add: executeDatabaseConnector_def failure_def succeeded_def split: sum.split)

lemma executeWebhookConnector_error:
  assumes "\<And>req st msg body rhs. httpRequest w req = HttpResponse st msg body rhs \<Longrightarrow> st \<noteq> None \<and> st \<noteq> Some 0"
    and "executeWebhookConnector w conn a p ctx = Inr r" and "\<not> success r"
  shows "error r \<noteq> None"
  using assms(2,3) status_failed assms(1)
  by (auto simp: executeWebhookConnector_def failure_def Let_def split: http_outcome.splits)

lemma dispatch_error:
  assumes "\<And>req st msg body rhs. httpRequest w req = HttpResponse st msg body rhs \<Longrightarrow> st \<noteq> None \<and> st \<noteq> Some 0"
    and "dispatch w c conn a p ctx h = (Inr r, h1)" and "\<not> success r"
  shows "error r \<noteq> None"
proof (cases "conn_type conn")
  case Api
  with assms(2) obtain hs where "executeAPIConnector w conn a p ctx = (Inr r, hs)"
    by (auto simp: dispatch_def split: prod.splits)
  from executeAPIConnector_error [OF assms(1) this assms(3)] show ?thesis .
next
  case Cli
  with assms(2) have "executeCLIConnector w conn a p ctx = Inr r"
    by (simp add: dispatch_def)
  with assms(3) show ?thesis by (simp add: executeCLIConnector_error)
next
  case File
  with assms(2) have "r = executeFileConnector w conn a p ctx" by (simp add: dispatch_def)
  with assms(3) executeFileConnector_error [of w conn a p ctx] show ?thesis by simp
next
  case Database
  with assms(2) have "r = executeDatabaseConnector w conn a p ctx" by (simp add: dispatch_def)
  with assms(3) executeDatabaseConnector_error [of w conn a p ctx] show ?thesis by simp
next
  case Webhook
  with assms(2) have "executeWebhookConnector w conn a p ctx = Inr r" by (simp add: dispatch_def)
  from executeWebhookConnector_error [OF assms(1) this assms(3)] show ?thesis .
next
  case (OtherType t)
  with assms(2) show ?thesis by (auto simp: dispatch_def failure_def)
qed

text \<open>
  Apart from a response without status code, a failed envelope of
  \<^verbatim>\<open>executeConnector\<close> carries an error.
\<close>

lemma executeConnector_error_present:
  assumes "\<And>req st msg body rhs. httpRequest w req = HttpResponse st msg body rhs \<Longrightarrow> st \<noteq> None \<and> st \<noteq> Some 0"
    and "cacheAllSuccess h"
    and "\<not> success (fst (executeConnector w c a p ctx h))"
  shows "error (fst (executeConnector w c a p ctx h)) \<noteq> None"
proof -
  have hit: "success r" if "cacheLookup w k h = Some r" for k r
  proof -
    from that obtain ts where "map_of (responseCache h) k = Some (r, ts)"
      by (auto simp: cacheLookup_def split: option.splits if_splits)
    then have "(k, (r, ts)) \<in> set (responseCache h)" by (rule map_of_SomeD)
    with assms(2) show ?thesis by (auto simp: cacheAllSuccess_def list_all_iff)
  qed
  have miss: "error r \<noteq> None" if "dispatch w c conn a (defaultParams p) ctx h = (Inr r, h1)" "\<not> success r"
    for conn r h1
    using assms(1) that by (rule dispatch_error)
  from assms(3) show ?thesis
    unfolding executeConnector_def Let_def
    by (auto simp: failure_def split: option.splits prod.splits sum.splits if_splits
             dest: hit miss)
qed

text \<open>
  Only the api strategy on a connector with configured headers writes to the registry.
\<close>

lemma dispatch_connectors_frame:
  "dispatch w c conn a p ctx h = (r, h1) \<Longrightarrow> conn_type conn \<noteq> Api \<or> headers (config conn) = None \<Longrightarrow>
     connectors h1 = connectors h"
  by (auto simp: dispatch_def split: connector_type.splits option.splits prod.splits)

lemma execStep_condition:
  assumes "step_type step = StepCondition"
  shows "execStep w workflowId workflow context step currentStepId results push h =
     (case (case ev_push (evalExpr w (conditionExpr step) (variables workflow) results) of
              None \<Rightarrow> push | Some f \<Rightarrow> f)
             (ev_results (evalExpr w (conditionExpr step) (variables workflow) results))
             (logEntry step (succeeded (JObj [(''result'',
                evaluateCondition w (conditionExpr step) (variables workflow) results)]))) of
        Inl e \<Rightarrow>
          Halt (stepThrew step e (ev_results (evalExpr w (conditionExpr step) (variables workflow) results)))
            (storeVariables workflowId
               (ev_variables (evalExpr w (conditionExpr step) (variables workflow) results)) h)
      | Inr results2 \<Rightarrow>
          Continue (if truthy (evaluateCondition w (conditionExpr step) (variables workflow) results)
                    then onSuccess step else onFailure step)
            results2
            (case ev_push (evalExpr w (conditionExpr step) (variables workflow) results) of
               None \<Rightarrow> push | Some f \<Rightarrow> f)
            (ev_variables (evalExpr w (conditionExpr step) (variables workflow) results))
            (storeVariables workflowId
               (ev_variables (evalExpr w (conditionExpr step) (variables workflow) results)) h))"
  using assms by (simp add: execStep_def Let_def)


lemma logEntry_condition:
  "logEntry step (succeeded (JObj [(''result'', v)])) =
     JObj [(''stepId'', JStr (step_id step)), (''stepName'', JStr (step_name step)),
           (''result'', JObj [(''success'', JBool True), (''data'', JObj [(''result'', v)]),
              (''error'', JUndefined), (''metadata'', JUndefined), (''cached'', JUndefined),
              (''duration'', JUndefined)])]"
  by (simp add: logEntry_def responseValue_def succeeded_def optStr_def)

lemma workflowLoop_conditions_succeed:
  "\<forall>s \<in> set (steps workflow). step_type s = StepCondition \<Longrightarrow>
   \<forall>x \<in> set ws. \<forall>c vs rs. ev_push (evalExpr x c vs rs) = None \<Longrightarrow>
     workflowLoop ws workflowId workflow context cur results arrayPush h = Some (r, h1) \<Longrightarrow> success r"
proof (induction ws arbitrary: workflow cur results h)
  case Nil
  then show ?case
    by (auto simp: completed_def split: if_splits option.splits)
next
  case (Cons w ws)
  show ?case
  proof (cases "truthyStr cur")
    case False
    with Cons.prems show ?thesis by (auto simp: completed_def)
  next
    case True
    show ?thesis
    proof (cases "find (\<lambda>s. step_id s = strOrUndefined cur) (steps workflow)")
      case None
      with True Cons.prems show ?thesis by (auto simp: completed_def)
    next
      case (Some step)
      then have "step \<in> set (steps workflow)"
        by (auto simp: find_Some_iff)
      with Cons.prems(1) have cond: "step_type step = StepCondition" by blast
      from Cons.prems(2) have np: "ev_push (evalExpr w c vs rs) = None" for c vs rs by simp
      from cond np obtain nxt results1 vars1 h2 where
        "execStep w workflowId workflow context step (strOrUndefined cur) results arrayPush h
           = Continue nxt results1 arrayPush vars1 h2"
        by (simp add: execStep_condition arrayPush_def)
      with True Some Cons.prems(3)
      have run: "workflowLoop ws workflowId (workflow\<lparr>variables := vars1\<rparr>) context nxt results1 arrayPush h2
                   = Some (r, h1)"
        by simp
      from Cons.prems(1) have "\<forall>s \<in> set (steps (workflow\<lparr>variables := vars1\<rparr>)). step_type s = StepCondition"
        by simp
      moreover from Cons.prems(2) have "\<forall>x \<in> set ws. \<forall>c vs rs. ev_push (evalExpr x c vs rs) = None"
        by simp
      ultimately show ?thesis using run by (rule Cons.IH)
    qed
  qed
qed

lemma escapeChar_plain: "plainChar c \<Longrightarrow> escapeChar c = [c]"
  by (auto simp: escapeChar_def plainChar_def)

lemma quoteJSON_plain: "list_all plainChar s \<Longrightarrow> quoteJSON s = CHR 0x22 # s @ [CHR 0x22]"
proof -
  assume "list_all plainChar s"
  then have "concat (map escapeChar s) = s"
    by (induction s) (simp_all add: escapeChar_plain)
  then show ?thesis by (simp add: quoteJSON_def)
qed

lemma plain_no_quote: "list_all plainChar s \<Longrightarrow> CHR 0x22 \<notin> set s"
  by (auto simp: list_all_iff plainChar_def)

lemma split_at_first:
  "q \<notin> set xs \<Longrightarrow> q \<notin> set ys \<Longrightarrow> xs @ q # r = ys @ q # r' \<Longrightarrow> xs = ys \<and> r = r'"
proof (induction xs arbitrary: ys)
  case Nil
  then show ?case by (cases ys) auto
next
  case (Cons x xs)
  then show ?case by (cases ys) auto
qed

lemma join_Cons: "join sep (x # xs) = x @ concat (map (\<lambda>y. sep @ y) xs)"
  by (induction xs arbitrary: x) simp_all

lemma stringify_string_object:
  "list_all (\<lambda>(k, v). list_all plainChar k \<and> list_all plainChar v) kvs \<Longrightarrow>
     stringify (JObj (map (\<lambda>(k, v). (k, JStr v)) kvs)) =
       Some (''{'' @ join '','' (map memberText kvs) @ ''}'')"
proof -
  assume p: "list_all (\<lambda>(k, v). list_all plainChar k \<and> list_all plainChar v) kvs"
  then have "concat (map (\<lambda>kv. case stringify (snd kv) of None \<Rightarrow> []
                 | Some s \<Rightarrow> [quoteJSON (fst kv) @ '':'' @ s]) (map (\<lambda>(k, v). (k, JStr v)) kvs))
             = map memberText kvs"
    by (induction kvs) (auto simp: quoteJSON_plain memberText_def)
  then show ?thesis by (simp only: stringify.simps)
qed

lemma member_tails_inject:
  "list_all (\<lambda>(k, v). list_all plainChar k \<and> list_all plainChar v) xs \<Longrightarrow>
   list_all (\<lambda>(k, v). list_all plainChar k \<and> list_all plainChar v) ys \<Longrightarrow>
   concat (map (\<lambda>kv. '','' @ memberText kv) xs) = concat (map (\<lambda>kv. '','' @ memberText kv) ys) \<Longrightarrow>
     xs = ys"
proof (induction xs arbitrary: ys)
  case Nil
  then show ?case by (cases ys) (auto simp: memberText_def)
next
  case (Cons x xs)
  show ?case
  proof (cases ys)
    case Nil
    with Cons.prems(3) show ?thesis by (simp add: memberText_def)
  next
    case (Cons y ys')
    obtain k v where x: "x = (k, v)" by (cases x)
    obtain k' v' where y: "y = (k', v')" by (cases y)
    from Cons.prems(1) x have pk: "CHR 0x22 \<notin> set k" and pv: "CHR 0x22 \<notin> set v"
      by (auto dest: plain_no_quote)
    from Cons.prems(2) Cons y have pk': "CHR 0x22 \<notin> set k'" and pv': "CHR 0x22 \<notin> set v'"
      by (auto dest: plain_no_quote)
    let ?T = "concat (map (\<lambda>kv. '','' @ memberText kv) xs)"
    let ?T' = "concat (map (\<lambda>kv. '','' @ memberText kv) ys')"
    from Cons.prems(3) Cons x y
    have "k @ CHR 0x22 # (CHR '':'' # CHR 0x22 # v @ CHR 0x22 # ?T)
            = k' @ CHR 0x22 # (CHR '':'' # CHR 0x22 # v' @ CHR 0x22 # ?T')"
      by (simp add: memberText_def)
    from split_at_first [OF pk pk' this]
    have kk: "k = k'" and "v @ CHR 0x22 # ?T = v' @ CHR 0x22 # ?T'" by simp_all
    from split_at_first [OF pv pv' this(2)] have vv: "v = v'" and tt: "?T = ?T'" by simp_all
    from Cons.prems(1) have "list_all (\<lambda>(k, v). list_all plainChar k \<and> list_all plainChar v) xs" by simp
    moreover from Cons.prems(2) Cons
    have "list_all (\<lambda>(k, v). list_all plainChar k \<and> list_all plainChar v) ys'" by simp
    ultimately have "xs = ys'" using tt by (rule Cons.IH)
    with kk vv x y Cons show ?thesis by simp
  qed
qed

lemma member_join_inject:
  assumes "list_all (\<lambda>(k, v). list_all plainChar k \<and> list_all plainChar v) xs"
    and "list_all (\<lambda>(k, v). list_all plainChar k \<and> list_all plainChar v) ys"
    and "join '','' (map memberText xs) = join '','' (map memberText ys)"
  shows "xs = ys"
proof -
  have "concat (map (\<lambda>kv. '','' @ memberText kv) xs) = concat (map (\<lambda>kv. '','' @ memberText kv) ys)"
  proof (cases xs)
    case Nil
    with assms(3) show ?thesis by (cases ys) (auto simp: join_Cons memberText_def)
  next
    case xs: (Cons x xs')
    show ?thesis
    proof (cases ys)
      case Nil
      with assms(3) xs show ?thesis by (auto simp: join_Cons memberText_def)
    next
      case (Cons y ys')
      with assms(3) xs show ?thesis by (simp add: join_Cons comp_def)
    qed
  qed
  with assms(1,2) show ?thesis by (rule member_tails_inject)
qed

lemma hubWith_workflow: "map_of (workflows (hubWith workflow)) (wf_id workflow) = Some workflow"
  by (simp add: hubWith_def)

lemma storeVariables_same:
  "storeVariables (wf_id workflow) (variables workflow) (hubWith workflow) = hubWith workflow"
  by (simp add: storeVariables_def hubWith_def)


section \<open>Claims\<close>

text \<open>
  C1. The specification states: every envelope returned by \<^verbatim>\<open>executeConnector\<close> with
  \<open>success = False\<close> carries an error. The response handler of the api strategy
  sets \<open>success\<close> to false when \<^verbatim>\<open>res.statusCode\<close> is falsy, and sets the error only
  when the status code is at least 400. Evaluated on the built-in github connector and
  a response without status code, the returned envelope has \<open>success = False\<close> and no
  error.
\<close>

theorem C1_status_absent_breaks_error_invariant:
  "success (fst (executeConnector statuslessWorld ''github'' ''get'' (JObj []) None initialHub)) = False
   \<and> error (fst (executeConnector statuslessWorld ''github'' ''get'' (JObj []) None initialHub)) = None"
  by (simp add: executeConnector_def initialHub_github initialHub_cache cacheLookup_def
        dispatch_def executeAPIConnector_def apiRequest_def emptyConfig_def defaultParams_def
        statuslessWorld_def sampleWorld_def statusSuccess_def statusFailed_def Let_def)

text \<open>
  C2. An iteration on a condition step either continues the loop with one of the step's
  two pointers or ends the run in the \<^verbatim>\<open>catch\<close> of the loop; it never advances by
  position. When its log entry is appended, the loop continues with the \<open>onSuccess\<close>
  pointer when the value of the expression is truthy, in particular when it is
  \<^verbatim>\<open>true\<close>, and with the \<open>onFailure\<close> pointer when the value is falsy, in particular
  \<^verbatim>\<open>false\<close>, or when the evaluation throws, and the next iteration of
  \<^verbatim>\<open>executeWorkflow\<close> runs with that pointer. The iteration does not depend on the step
  array or on the current id, the two inputs of positional advancement.
\<close>

theorem C2_condition_navigation:
  assumes "step_type step = StepCondition"
    and "evalExpr w (conditionExpr step) (variables workflow) results = out"
    and "v = (case ev_value out of None \<Rightarrow> JBool False | Some x \<Rightarrow> x)"
    and "pushAfter = (case ev_push out of None \<Rightarrow> push | Some f \<Rightarrow> f)"
    and "entry =
           JObj [(''stepId'', JStr (step_id step)), (''stepName'', JStr (step_name step)),
                 (''result'', JObj [(''success'', JBool True), (''data'', JObj [(''result'', v)]),
                    (''error'', JUndefined), (''metadata'', JUndefined), (''cached'', JUndefined),
                    (''duration'', JUndefined)])]"
    and "stored = h\<lparr>workflows := AList.map_entry workflowId (\<lambda>wfl. wfl\<lparr>variables := ev_variables out\<rparr>)
                                    (workflows h)\<rparr>"
  shows "(pushAfter (ev_results out) entry = Inr appended \<longrightarrow>
            execStep w workflowId workflow ctx step currentStepId results push h =
              Continue (if truthy v then onSuccess step else onFailure step) appended pushAfter
                (ev_variables out) stored
          \<and> (ev_value out = Some (JBool True) \<longrightarrow>
               execStep w workflowId workflow ctx step currentStepId results push h =
                 Continue (onSuccess step) appended pushAfter (ev_variables out) stored)
          \<and> (ev_value out = Some (JBool False) \<or> ev_value out = None \<longrightarrow>
               execStep w workflowId workflow ctx step currentStepId results push h =
                 Continue (onFailure step) appended pushAfter (ev_variables out) stored)
          \<and> (truthyStr cur \<and> find (\<lambda>s. step_id s = strOrUndefined cur) (steps workflow) = Some step \<longrightarrow>
               workflowLoop (w # ws) workflowId workflow ctx cur results push h =
                 workflowLoop ws workflowId (workflow\<lparr>variables := ev_variables out\<rparr>) ctx
                   (if truthy v then onSuccess step else onFailure step) appended pushAfter stored))
       \<and> execStep w workflowId (workflow\<lparr>steps := otherSteps\<rparr>) ctx step otherId results push h =
           execStep w workflowId workflow ctx step currentStepId results push h
       \<and> ((\<exists>log. execStep w workflowId workflow ctx step currentStepId results push h =
                   Continue (if truthy v then onSuccess step else onFailure step) log pushAfter
                     (ev_variables out) stored)
            \<or> (\<exists>failed. execStep w workflowId workflow ctx step currentStepId results push h =
                   Halt failed stored))"
proof (intro conjI impI)
  assume p: "pushAfter (ev_results out) entry = Inr appended"
  with assms have e:
    "execStep w workflowId workflow ctx step c results push h =
       Continue (if truthy v then onSuccess step else onFailure step) appended pushAfter
         (ev_variables out) stored" for c
    by (simp add: execStep_condition logEntry_condition evaluateCondition_def storeVariables_def)
  from e show "execStep w workflowId workflow ctx step currentStepId results push h =
       Continue (if truthy v then onSuccess step else onFailure step) appended pushAfter
         (ev_variables out) stored" .
  {
    assume "ev_value out = Some (JBool True)"
    with assms(3) have "truthy v" by simp
    with e show "execStep w workflowId workflow ctx step currentStepId results push h =
                 Continue (onSuccess step) appended pushAfter (ev_variables out) stored"
      by simp
  }
  {
    assume "ev_value out = Some (JBool False) \<or> ev_value out = None"
    with assms(3) have "\<not> truthy v" by auto
    with e show "execStep w workflowId workflow ctx step currentStepId results push h =
                 Continue (onFailure step) appended pushAfter (ev_variables out) stored"
      by simp
  }
  {
    assume "truthyStr cur \<and> find (\<lambda>s. step_id s = strOrUndefined cur) (steps workflow) = Some step"
    with e show "workflowLoop (w # ws) workflowId workflow ctx cur results push h =
                 workflowLoop ws workflowId (workflow\<lparr>variables := ev_variables out\<rparr>) ctx
                   (if truthy v then onSuccess step else onFailure step) appended pushAfter stored"
      by simp
  }
next
  from assms(1) show
    "execStep w workflowId (workflow\<lparr>steps := otherSteps\<rparr>) ctx step otherId results push h =
       execStep w workflowId workflow ctx step currentStepId results push h"
    by (simp add: execStep_condition cong: sum.case_cong)
next
  from assms show
    "(\<exists>log. execStep w workflowId workflow ctx step currentStepId results push h =
                   Continue (if truthy v then onSuccess step else onFailure step) log pushAfter
                     (ev_variables out) stored)
            \<or> (\<exists>failed. execStep w workflowId workflow ctx step currentStepId results push h =
                   Halt failed stored)"
    by (cases "pushAfter (ev_results out) entry")
       (simp_all add: execStep_condition logEntry_condition evaluateCondition_def storeVariables_def)
qed

theorem C2_condition_navigation_witness:
  "execStep sampleWorld ''branching'' (branchingWorkflow ''true'') sampleContext (checkStep ''true'')
     ''check'' [] arrayPush (hubWith (branchingWorkflow ''true'')) =
   Continue (Some ''yes'')
     [JObj [(''stepId'', JStr ''check''), (''stepName'', JStr ''check''),
            (''result'', JObj [(''success'', JBool True), (''data'', JObj [(''result'', JBool True)]),
               (''error'', JUndefined), (''metadata'', JUndefined), (''cached'', JUndefined),
               (''duration'', JUndefined)])]]
     arrayPush (JObj []) (hubWith (branchingWorkflow ''true''))
   \<and> execStep sampleWorld ''branching'' (branchingWorkflow ''boom()'') sampleContext (checkStep ''boom()'')
     ''check'' [] arrayPush (hubWith (branchingWorkflow ''boom()'')) =
   Continue (Some ''no'')
     [JObj [(''stepId'', JStr ''check''), (''stepName'', JStr ''check''),
            (''result'', JObj [(''success'', JBool True), (''data'', JObj [(''result'', JBool False)]),
               (''error'', JUndefined), (''metadata'', JUndefined), (''cached'', JUndefined),
               (''duration'', JUndefined)])]]
     arrayPush (JObj []) (hubWith (branchingWorkflow ''boom()''))
   \<and> map_option (data \<circ> fst)
       (executeWorkflow [sampleWorld, sampleWorld] ''branching'' sampleContext
          (hubWith (branchingWorkflow ''true''))) =
     Some (Some (JObj [(''workflowResults'', JArr
       [JObj [(''stepId'', JStr ''check''), (''stepName'', JStr ''check''),
              (''result'', JObj [(''success'', JBool True), (''data'', JObj [(''result'', JBool True)]),
                 (''error'', JUndefined), (''metadata'', JUndefined), (''cached'', JUndefined),
                 (''duration'', JUndefined)])],
        JObj [(''stepId'', JStr ''yes''), (''stepName'', JStr ''yes''),
              (''result'', JObj [(''success'', JBool True),
                 (''data'', JObj [(''userInput'', JStr ''approved'')]),
                 (''error'', JUndefined), (''metadata'', JUndefined), (''cached'', JUndefined),
                 (''duration'', JUndefined)])]])]))"
proof -
  have a1: "step_type (checkStep c) = StepCondition" for c
    by (simp add: checkStep_def sampleStep_def)
  have vars: "variables (branchingWorkflow c) = JObj []" for c
    by (simp add: branchingWorkflow_def sampleWorkflow_def)
  have wid: "wf_id (branchingWorkflow c) = ''branching''" for c
    by (simp add: branchingWorkflow_def sampleWorkflow_def)
  have ce: "conditionExpr (checkStep ''true'') = ''true''" "conditionExpr (checkStep ''boom()'') = ''boom()''"
    by (simp_all add: conditionExpr_def checkStep_def sampleStep_def)
  have o1: "evalExpr sampleWorld (conditionExpr (checkStep ''true'')) (variables (branchingWorkflow ''true'')) []
              = pureOutcome (Some (JBool True)) (JObj []) []"
    by (simp add: ce vars sampleWorld_def)
  have o2: "evalExpr sampleWorld (conditionExpr (checkStep ''boom()'')) (variables (branchingWorkflow ''boom()'')) []
              = pureOutcome None (JObj []) []"
    by (simp add: ce vars sampleWorld_def)
  have ids: "step_id (checkStep c) = ''check''" "step_name (checkStep c) = ''check''"
    "onSuccess (checkStep c) = Some ''yes''" "onFailure (checkStep c) = Some ''no''" for c
    by (simp_all add: checkStep_def sampleStep_def)
  have h: "hubWith (branchingWorkflow c) =
             (hubWith (branchingWorkflow c))\<lparr>workflows := AList.map_entry ''branching''
                (\<lambda>wfl. wfl\<lparr>variables := ev_variables (pureOutcome x (JObj []) [])\<rparr>)
                (workflows (hubWith (branchingWorkflow c)))\<rparr>" for c x
    by (simp add: hubWith_def pureOutcome_def branchingWorkflow_def sampleWorkflow_def)
  have s1: "execStep sampleWorld ''branching'' (branchingWorkflow ''true'') sampleContext (checkStep ''true'')
     ''check'' [] arrayPush (hubWith (branchingWorkflow ''true'')) =
   Continue (Some ''yes'')
     [JObj [(''stepId'', JStr ''check''), (''stepName'', JStr ''check''),
            (''result'', JObj [(''success'', JBool True), (''data'', JObj [(''result'', JBool True)]),
               (''error'', JUndefined), (''metadata'', JUndefined), (''cached'', JUndefined),
               (''duration'', JUndefined)])]]
     arrayPush (JObj []) (hubWith (branchingWorkflow ''true''))"
    using C2_condition_navigation [OF a1 o1 refl refl refl h,
            where push = arrayPush and ctx = sampleContext and currentStepId = "''check''"
              and appended = "[JObj [(''stepId'', JStr ''check''), (''stepName'', JStr ''check''),
                (''result'', JObj [(''success'', JBool True), (''data'', JObj [(''result'', JBool True)]),
                   (''error'', JUndefined), (''metadata'', JUndefined), (''cached'', JUndefined),
                   (''duration'', JUndefined)])]]",
            THEN conjunct1]
    by (simp add: pureOutcome_def arrayPush_def ids)
  have s2: "execStep sampleWorld ''branching'' (branchingWorkflow ''boom()'') sampleContext (checkStep ''boom()'')
     ''check'' [] arrayPush (hubWith (branchingWorkflow ''boom()'')) =
   Continue (Some ''no'')
     [JObj [(''stepId'', JStr ''check''), (''stepName'', JStr ''check''),
            (''result'', JObj [(''success'', JBool True), (''data'', JObj [(''result'', JBool False)]),
               (''error'', JUndefined), (''metadata'', JUndefined), (''cached'', JUndefined),
               (''duration'', JUndefined)])]]
     arrayPush (JObj []) (hubWith (branchingWorkflow ''boom()''))"
    using C2_condition_navigation [OF a1 o2 refl refl refl h,
            where push = arrayPush and ctx = sampleContext and currentStepId = "''check''"
              and appended = "[JObj [(''stepId'', JStr ''check''), (''stepName'', JStr ''check''),
                (''result'', JObj [(''success'', JBool True), (''data'', JObj [(''result'', JBool False)]),
                   (''error'', JUndefined), (''metadata'', JUndefined), (''cached'', JUndefined),
                   (''duration'', JUndefined)])]]",
            THEN conjunct1]
    by (simp add: pureOutcome_def arrayPush_def ids)
  have run: "map_option (data \<circ> fst)
       (executeWorkflow [sampleWorld, sampleWorld] ''branching'' sampleContext
          (hubWith (branchingWorkflow ''true''))) =
     Some (Some (JObj [(''workflowResults'', JArr
       [JObj [(''stepId'', JStr ''check''), (''stepName'', JStr ''check''),
              (''result'', JObj [(''success'', JBool True), (''data'', JObj [(''result'', JBool True)]),
                 (''error'', JUndefined), (''metadata'', JUndefined), (''cached'', JUndefined),
                 (''duration'', JUndefined)])],
        JObj [(''stepId'', JStr ''yes''), (''stepName'', JStr ''yes''),
              (''result'', JObj [(''success'', JBool True),
                 (''data'', JObj [(''userInput'', JStr ''approved'')]),
                 (''error'', JUndefined), (''metadata'', JUndefined), (''cached'', JUndefined),
                 (''duration'', JUndefined)])]])]))"
    by (simp add: executeWorkflow_def hubWith_def branchingWorkflow_def sampleWorkflow_def
          checkStep_def sampleStep_def elementAt_def execStep_def runStep_def evaluateCondition_def
          conditionExpr_def sampleWorld_def pureOutcome_def arrayPush_def logEntry_def
          responseValue_def succeeded_def optStr_def completed_def workflowData_def
          storeVariables_def Let_def)
  from s1 s2 run show ?thesis by blast
qed




text \<open>
  C4. The specification states: parameter sets that are equal as key-value maps give the same cache
  key. The key is built with \<^verbatim>\<open>JSON.stringify(params)\<close>, which writes the properties
  in insertion order, and nothing canonicalizes that order: \<^verbatim>\<open>{a: 1, b: 2}\<close> and
  \<^verbatim>\<open>{b: 2, a: 1}\<close> are the same map and get different keys.
\<close>

theorem C4_key_order_counterexample:
  "map_of [(''a'', JNum 1), (''b'', JNum 2)] = map_of [(''b'', JNum 2), (''a'', JNum 1)]
   \<and> cacheKey ''c'' ''get'' (JObj [(''a'', JNum 1), (''b'', JNum 2)])
       \<noteq> cacheKey ''c'' ''get'' (JObj [(''b'', JNum 2), (''a'', JNum 1)])"
proof
  show "map_of [(''a'', JNum 1), (''b'', JNum 2)] = map_of [(''b'', JNum 2), (''a'', JNum 1)]"
    by (rule ext) simp
  show "cacheKey ''c'' ''get'' (JObj [(''a'', JNum 1), (''b'', JNum 2)])
       \<noteq> cacheKey ''c'' ''get'' (JObj [(''b'', JNum 2), (''a'', JNum 1)])"
    by (simp add: cacheKey_def quoteJSON_def escapeChar_def showInt_def)
qed

text \<open>
  C4, amended. The cache key is the connector id, the action and the JSON text of the
  parameters, joined by colons, and the JSON text lists the properties in the order of
  the object. For parameter objects whose keys and values are strings without quotes,
  backslashes and control characters, two objects get the same key exactly when they
  hold the same properties in the same order.
\<close>

theorem C4_cache_key_follows_property_order:
  assumes "list_all (\<lambda>(k, v). list_all plainChar k \<and> list_all plainChar v) kvs"
    and "list_all (\<lambda>(k, v). list_all plainChar k \<and> list_all plainChar v) kvs'"
  shows "cacheKey connId action (JObj (map (\<lambda>(k, v). (k, JStr v)) kvs)) =
           connId @ '':'' @ action @ '':{''
             @ join '','' (map (\<lambda>(k, v). [CHR 0x22] @ k @ [CHR 0x22] @ '':'' @ [CHR 0x22] @ v @ [CHR 0x22]) kvs)
             @ ''}''
       \<and> ((cacheKey connId action (JObj (map (\<lambda>(k, v). (k, JStr v)) kvs)) =
            cacheKey connId action (JObj (map (\<lambda>(k, v). (k, JStr v)) kvs'))) = (kvs = kvs'))"
proof
  have m: "(\<lambda>(k, v). [CHR 0x22] @ k @ [CHR 0x22] @ '':'' @ [CHR 0x22] @ v @ [CHR 0x22]) = memberText"
    by (auto simp: memberText_def fun_eq_iff)
  from assms(1) show "cacheKey connId action (JObj (map (\<lambda>(k, v). (k, JStr v)) kvs)) =
           connId @ '':'' @ action @ '':{''
             @ join '','' (map (\<lambda>(k, v). [CHR 0x22] @ k @ [CHR 0x22] @ '':'' @ [CHR 0x22] @ v @ [CHR 0x22]) kvs)
             @ ''}''"
    unfolding m by (simp add: cacheKey_def stringify_string_object del: stringify.simps)
next
  show "(cacheKey connId action (JObj (map (\<lambda>(k, v). (k, JStr v)) kvs)) =
            cacheKey connId action (JObj (map (\<lambda>(k, v). (k, JStr v)) kvs'))) = (kvs = kvs')"
  proof
    assume "cacheKey connId action (JObj (map (\<lambda>(k, v). (k, JStr v)) kvs)) =
            cacheKey connId action (JObj (map (\<lambda>(k, v). (k, JStr v)) kvs'))"
    with assms have "join '','' (map memberText kvs) = join '','' (map memberText kvs')"
      by (simp add: cacheKey_def stringify_string_object del: stringify.simps)
    with assms show "kvs = kvs'" by (rule member_join_inject)
  next
    assume "kvs = kvs'"
    then show "cacheKey connId action (JObj (map (\<lambda>(k, v). (k, JStr v)) kvs)) =
            cacheKey connId action (JObj (map (\<lambda>(k, v). (k, JStr v)) kvs'))"
      by simp
  qed
qed

theorem C4_cache_key_follows_property_order_witness:
  "cacheKey ''c'' ''get'' (JObj [(''a'', JStr ''1''), (''b'', JStr ''2'')]) =
     ''c:get:{'' @ [CHR 0x22] @ ''a'' @ [CHR 0x22] @ '':'' @ [CHR 0x22] @ ''1'' @ [CHR 0x22] @ '',''
       @ [CHR 0x22] @ ''b'' @ [CHR 0x22] @ '':'' @ [CHR 0x22] @ ''2'' @ [CHR 0x22] @ ''}''
   \<and> cacheKey ''c'' ''get'' (JObj [(''a'', JStr ''1''), (''b'', JStr ''2'')])
       \<noteq> cacheKey ''c'' ''get'' (JObj [(''b'', JStr ''2''), (''a'', JStr ''1'')])"
proof -
  have p: "list_all (\<lambda>(k, v). list_all plainChar k \<and> list_all plainChar v) [(''a'', ''1''), (''b'', ''2'')]"
    by (simp add: plainChar_def)
  have p': "list_all (\<lambda>(k, v). list_all plainChar k \<and> list_all plainChar v) [(''b'', ''2''), (''a'', ''1'')]"
    by (simp add: plainChar_def)
  note t = C4_cache_key_follows_property_order [OF p p', of "''c''" "''get''"]
  from t [THEN conjunct1]
  have a: "cacheKey ''c'' ''get'' (JObj [(''a'', JStr ''1''), (''b'', JStr ''2'')]) =
     ''c:get:{'' @ [CHR 0x22] @ ''a'' @ [CHR 0x22] @ '':'' @ [CHR 0x22] @ ''1'' @ [CHR 0x22] @ '',''
       @ [CHR 0x22] @ ''b'' @ [CHR 0x22] @ '':'' @ [CHR 0x22] @ ''2'' @ [CHR 0x22] @ ''}''"
    by simp
  from t [THEN conjunct2]
  have b: "cacheKey ''c'' ''get'' (JObj [(''a'', JStr ''1''), (''b'', JStr ''2'')])
       \<noteq> cacheKey ''c'' ''get'' (JObj [(''b'', JStr ''2''), (''a'', JStr ''1'')])"
    by simp
  from a b show ?thesis by blast
qed

text \<open>
  C5. If every envelope in the cache is successful, this still holds after any sequence
  of \<^verbatim>\<open>executeConnector\<close> calls (the cache of a new hub is empty); and a call that
  returns a failed envelope leaves the cache as it was.
\<close>

theorem C5_only_success_cached:
  "(cacheAllSuccess h \<longrightarrow> cacheAllSuccess (executeCalls calls h))
   \<and> (\<not> success (fst (executeConnector w connId action params context h)) \<longrightarrow>
        responseCache (snd (executeConnector w connId action params context h)) = responseCache h)"
  by (simp add: executeCalls_cacheAllSuccess executeConnector_failed_cache)

theorem C5_only_success_cached_witness:
  "cacheAllSuccess initialHub
   \<and> cacheAllSuccess (executeCalls [(sampleWorld, ''github'', ''get'', JObj [], None),
                                     (failingWorld, ''github'', ''post'', JObj [], None)] initialHub)
   \<and> \<not> success (fst (executeConnector failingWorld ''github'' ''get'' (JObj []) None initialHub))
   \<and> responseCache (snd (executeConnector failingWorld ''github'' ''get'' (JObj []) None initialHub))
       = responseCache initialHub"
proof -
  have a: "cacheAllSuccess initialHub"
    by (simp add: cacheAllSuccess_def initialHub_cache)
  from C5_only_success_cached [of initialHub
         "[(sampleWorld, ''github'', ''get'', JObj [], None), (failingWorld, ''github'', ''post'', JObj [], None)]"
         failingWorld "''github''" "''get''" "JObj []" None] a failing_call
  show ?thesis by blast
qed

text \<open>
  C6. When a call of \<^verbatim>\<open>executeConnector\<close> was not answered from the cache and
  returned a successful envelope, a later call with the same connector id, action and
  parameters that reads the clock less than 60000 ms after the entry was stored returns
  that envelope with \<open>cached\<close> set to true: \<open>data\<close> and \<open>error\<close> are the same, and
  \<open>duration\<close> is the duration stamped by the first call. The hub does not change.
\<close>

theorem C6_cache_round_trip:
  assumes "executeConnector w1 connId action params context1 h = (r1, h1)"
    and "success r1"
    and "cached r1 \<noteq> Some True"
    and "now_check w2 - now_store w1 < 60000"
  shows "executeConnector w2 connId action params context2 h1 = (r1\<lparr>cached := Some True\<rparr>, h1)
       \<and> data (fst (executeConnector w2 connId action params context2 h1)) = data r1
       \<and> error (fst (executeConnector w2 connId action params context2 h1)) = error r1
       \<and> duration (fst (executeConnector w2 connId action params context2 h1))
           = Some (now_end w1 - now_start w1)
       \<and> cached (fst (executeConnector w2 connId action params context2 h1)) = Some True"
proof -
  from executeConnector_stored [OF assms(1,2,3)]
  obtain conn1 where c: "map_of (connectors h1) connId = Some conn1" "enabled conn1"
    and k: "map_of (responseCache h1) (cacheKey connId action (defaultParams params)) = Some (r1, now_store w1)"
    and d: "duration r1 = Some (now_end w1 - now_start w1)"
    by blast
  from c k assms(4)
  have "executeConnector w2 connId action params context2 h1 = (r1\<lparr>cached := Some True\<rparr>, h1)"
    by (simp add: executeConnector_def cacheLookup_def)
  with d show ?thesis by simp
qed

theorem C6_cache_round_trip_witness:
  "executeConnector laterWorld ''github'' ''get'' (JObj []) None
     (snd (executeConnector sampleWorld ''github'' ''get'' (JObj []) None initialHub))
   = ((fst (executeConnector sampleWorld ''github'' ''get'' (JObj []) None initialHub))
        \<lparr>cached := Some True\<rparr>,
      snd (executeConnector sampleWorld ''github'' ''get'' (JObj []) None initialHub))"
proof -
  have a1: "executeConnector sampleWorld ''github'' ''get'' (JObj []) None initialHub =
              (fst (executeConnector sampleWorld ''github'' ''get'' (JObj []) None initialHub),
               snd (executeConnector sampleWorld ''github'' ''get'' (JObj []) None initialHub))"
    by simp
  have a3: "cached (fst (executeConnector sampleWorld ''github'' ''get'' (JObj []) None initialHub))
              \<noteq> Some True"
    by (simp add: first_call(2))
  have a4: "now_check laterWorld - now_store sampleWorld < 60000"
    by (simp add: laterWorld_def sampleWorld_def)
  from C6_cache_round_trip [OF a1 first_call(1) a3 a4, of None]
  show ?thesis by blast
qed

text \<open>
  C7. For a connector that exists and is not enabled, \<^verbatim>\<open>executeConnector\<close> returns
  the failure \<^verbatim>\<open>Connector '<id>' is disabled\<close> and the hub unchanged, whatever the
  action, the parameters, the context, the world and the cache are: nothing is
  dispatched, and the cache is neither read nor written.
\<close>

theorem C7_disabled_connector_rejected:
  assumes "map_of (connectors h) connId = Some connector"
    and "\<not> enabled connector"
  shows "executeConnector w connId action params context h =
           (failure (''Connector '' @ quoted connId @ '' is disabled''), h)"
  using assms by (simp add: executeConnector_def)

theorem C7_disabled_connector_rejected_witness:
  "executeConnector sampleWorld ''jira'' ''get'' (JObj []) None initialHub =
     (failure (''Connector '' @ quoted ''jira'' @ '' is disabled''), initialHub)"
  using C7_disabled_connector_rejected [OF initialHub_jira, of sampleWorld "''get''" "JObj []" None]
  by simp

text \<open>
  C8. The specification states: a call of \<^verbatim>\<open>executeConnector\<close> leaves every field of the stored
  connector as it was. \<^verbatim>\<open>executeAPIConnector\<close> takes \<^verbatim>\<open>headers\<close> out of
  \<^verbatim>\<open>connector.config\<close> and assigns \<^verbatim>\<open>Content-Type\<close> into that object (and
  \<^verbatim>\<open>addAuthentication\<close> assigns the credentials into it). Evaluated on the built-in
  github connector and the action \<^verbatim>\<open>post\<close>, the stored header map has two entries
  before the call and three after it.
\<close>

theorem C8_api_call_changes_stored_headers:
  "map_option (headers \<circ> config) (map_of (connectors initialHub) ''github'') =
     Some (Some [(''Accept'', JStr ''application/vnd.github.v3+json''),
                 (''User-Agent'', JStr ''Neon-Agent'')])
   \<and> map_option (headers \<circ> config)
        (map_of (connectors (snd (executeConnector sampleWorld ''github'' ''post'' (JObj []) None initialHub)))
           ''github'') =
     Some (Some [(''Accept'', JStr ''application/vnd.github.v3+json''),
                 (''User-Agent'', JStr ''Neon-Agent''),
                 (''Content-Type'', JStr ''application/json'')])"
  by (simp add: executeConnector_def initialHub_github initialHub_cache cacheLookup_def
        dispatch_def executeAPIConnector_def apiRequest_def emptyConfig_def defaultParams_def
        sampleWorld_def statusSuccess_def statusFailed_def Let_def update_conv')

text \<open>
  C9. The specification states: the output of the command is captured unmodified on the success path
  too. The success path applies \<^verbatim>\<open>trim()\<close> to both streams: the command prints
  \<open>ok\<close> between a space and a line feed, and the envelope holds \<open>ok\<close>.
\<close>

theorem C9_stdout_trimmed_counterexample:
  "exec sampleWorld ''docker --version'' None = ExecOk ('' ok'' @ [CHR 0x0A]) []
   \<and> data (fst (executeConnector sampleWorld ''docker'' ''version'' (JObj []) None
                  (toggleConnector ''docker'' initialHub)))
       = Some (JObj [(''stdout'', JStr ''ok''), (''stderr'', JStr [])])
   \<and> ''ok'' \<noteq> '' ok'' @ [CHR 0x0A]"
  by (simp add: executeConnector_def toggled_docker toggled_cache cacheLookup_def dispatch_def
        executeCLIConnector_def cliCommand_def emptyConfig_def defaultParams_def succeeded_def
        sampleWorld_def trim_def isWhiteSpace_def Let_def)

text \<open>
  C9, amended. When the command line can be built, the success path returns stdout and
  stderr with leading and trailing white space removed, and the failure path returns
  the output carried by the error unmodified, the empty string standing for an absent
  one.
\<close>

theorem C9_cli_output_capture:
  assumes "cliCommand connector action params = Inr fullCommand"
  shows "(exec w fullCommand (map_option workspaceRoot context) = ExecOk out err \<longrightarrow>
            executeCLIConnector w connector action params context =
              Inr (succeeded (JObj [(''stdout'', JStr (trim out)), (''stderr'', JStr (trim err))])))
       \<and> (exec w fullCommand (map_option workspaceRoot context) = ExecFail message eout eerr \<longrightarrow>
            executeCLIConnector w connector action params context =
              Inr ((failure (''CLI execution failed: '' @ message))
                     \<lparr>data := Some (JObj [(''stdout'', JStr (outputOrEmpty eout)),
                                          (''stderr'', JStr (outputOrEmpty eerr))])\<rparr>))"
  using assms by (simp add: executeCLIConnector_def)

theorem C9_cli_output_capture_witness:
  "executeCLIConnector sampleWorld gitConnector ''version'' (JObj []) None =
     Inr (succeeded (JObj [(''stdout'', JStr ''ok''), (''stderr'', JStr [])]))
   \<and> executeCLIConnector crashWorld gitConnector ''version'' (JObj []) None =
     Inr ((failure ''CLI execution failed: Command failed'')
            \<lparr>data := Some (JObj [(''stdout'', JStr '' partial ''), (''stderr'', JStr [])])\<rparr>)"
proof -
  have c: "cliCommand gitConnector ''version'' (JObj []) = Inr ''git --version''"
    by (simp add: cliCommand_def gitConnector_def emptyConfig_def)
  have e1: "exec sampleWorld ''git --version'' (map_option workspaceRoot None)
              = ExecOk ('' ok'' @ [CHR 0x0A]) []"
    by (simp add: sampleWorld_def)
  have e2: "exec crashWorld ''git --version'' (map_option workspaceRoot None)
              = ExecFail ''Command failed'' (Some '' partial '') None"
    by (simp add: crashWorld_def sampleWorld_def)
  from C9_cli_output_capture [OF c, of sampleWorld None "'' ok'' @ [CHR 0x0A]" "[]"] e1
       C9_cli_output_capture [OF c, of crashWorld None _ _ "''Command failed''" "Some '' partial ''" None] e2
  show ?thesis by (simp add: trim_def isWhiteSpace_def)
qed

text \<open>
  C10. The specification states: a condition step can never make a workflow halt in a
  failed state. The entry of a condition step is pushed inside the \<^verbatim>\<open>try\<close> of the
  loop: when the expression \<^verbatim>\<open>results.push = 1\<close> has replaced the push, the call throws
  and the \<^verbatim>\<open>catch\<close> returns a failed envelope for a workflow of one condition step.
\<close>

theorem C10_condition_step_fails_run_counterexample:
  "map step_type (steps (gateWorkflow ''results.push = 1'')) = [StepCondition]
   \<and> map_option fst
       (executeWorkflow [meddlingWorld] ''gate'' sampleContext
          (hubWith (gateWorkflow ''results.push = 1'')))
     = Some \<lparr>success = False, data = Some (JObj [(''workflowResults'', JArr [])]),
              error = Some (''Workflow execution failed at step '' @ [CHR 0x27] @ ''gate'' @ [CHR 0x27]
                            @ '': TypeError: results.push is not a function''),
              metadata = None, cached = None, duration = None\<rparr>"
  by (simp add: executeWorkflow_def hubWith_def gateWorkflow_def sampleWorkflow_def
        sampleStep_def elementAt_def execStep_def evaluateCondition_def
        conditionExpr_def meddlingWorld_def sampleWorld_def pureOutcome_def arrayPush_def
        logEntry_def responseValue_def succeeded_def failure_def optStr_def stepThrew_def
        workflowData_def storeVariables_def quoted_def Let_def)

text \<open>
  C10, amended. An iteration on a condition step continues the loop whenever its entry
  can be pushed, with an entry whose result is successful, whatever the value of the
  expression; it returns the failure \<^verbatim>\<open>Workflow execution failed at step\<close> exactly when
  the push throws. The iteration is the same whatever the \<open>required\<close> flag of the
  step is. A run of a workflow made of condition steps only, in worlds where no
  expression replaces the push, returns a successful envelope when it returns.
\<close>

theorem C10_condition_step_halts_only_when_push_throws:
  assumes "step_type step = StepCondition"
    and "evalExpr w (conditionExpr step) (variables workflow) results = out"
    and "v = (case ev_value out of None \<Rightarrow> JBool False | Some x \<Rightarrow> x)"
    and "push1 = (case ev_push out of None \<Rightarrow> push | Some f \<Rightarrow> f)"
    and "entry =
           JObj [(''stepId'', JStr (step_id step)), (''stepName'', JStr (step_name step)),
                 (''result'', JObj [(''success'', JBool True), (''data'', JObj [(''result'', v)]),
                    (''error'', JUndefined), (''metadata'', JUndefined), (''cached'', JUndefined),
                    (''duration'', JUndefined)])]"
    and "h1 = h\<lparr>workflows := AList.map_entry workflowId (\<lambda>wfl. wfl\<lparr>variables := ev_variables out\<rparr>)
                                (workflows h)\<rparr>"
  shows "(push1 (ev_results out) entry = Inr results2 \<longrightarrow>
            (\<exists>nxt. execStep w workflowId workflow ctx step cur results push h =
               Continue nxt results2 push1 (ev_variables out) h1))
       \<and> (push1 (ev_results out) entry = Inl e \<longrightarrow>
            execStep w workflowId workflow ctx step cur results push h =
              Halt \<lparr>success = False,
                    data = Some (JObj [(''workflowResults'', JArr (ev_results out))]),
                    error = Some (''Workflow execution failed at step '' @ [CHR 0x27] @ step_name step
                                  @ [CHR 0x27] @ '': '' @ e),
                    metadata = None, cached = None, duration = None\<rparr> h1)
       \<and> execStep w workflowId workflow ctx (step\<lparr>required := rq\<rparr>) cur results push h =
           execStep w workflowId workflow ctx step cur results push h
       \<and> ((\<forall>s \<in> set (steps workflow). step_type s = StepCondition)
            \<and> (\<forall>x \<in> set ws. \<forall>c vs rs. ev_push (evalExpr x c vs rs) = None)
            \<and> workflowLoop ws workflowId workflow ctx start log arrayPush hubA = Some (final, hubB)
            \<longrightarrow> success final)"
proof (intro conjI)
  from assms show "push1 (ev_results out) entry = Inr results2 \<longrightarrow>
            (\<exists>nxt. execStep w workflowId workflow ctx step cur results push h =
               Continue nxt results2 push1 (ev_variables out) h1)"
    by (simp add: execStep_condition logEntry_condition evaluateCondition_def storeVariables_def)
  from assms show "push1 (ev_results out) entry = Inl e \<longrightarrow>
            execStep w workflowId workflow ctx step cur results push h =
              Halt \<lparr>success = False,
                    data = Some (JObj [(''workflowResults'', JArr (ev_results out))]),
                    error = Some (''Workflow execution failed at step '' @ [CHR 0x27] @ step_name step
                                  @ [CHR 0x27] @ '': '' @ e),
                    metadata = None, cached = None, duration = None\<rparr> h1"
    by (simp add: execStep_condition logEntry_condition evaluateCondition_def storeVariables_def
          stepThrew_def failure_def quoted_def workflowData_def)
  from assms(1) show "execStep w workflowId workflow ctx (step\<lparr>required := rq\<rparr>) cur results push h =
           execStep w workflowId workflow ctx step cur results push h"
    by (simp add: execStep_condition logEntry_def conditionExpr_def stepThrew_def cong: sum.case_cong)
  show "(\<forall>s \<in> set (steps workflow). step_type s = StepCondition)
            \<and> (\<forall>x \<in> set ws. \<forall>c vs rs. ev_push (evalExpr x c vs rs) = None)
            \<and> workflowLoop ws workflowId workflow ctx start log arrayPush hubA = Some (final, hubB)
            \<longrightarrow> success final"
    using workflowLoop_conditions_succeed by blast
qed

theorem C10_condition_step_halts_only_when_push_throws_witness:
  "execStep sampleWorld ''gate'' (gateWorkflow ''true'') sampleContext
     ((sampleStep ''gate'' StepCondition)\<lparr>condition := Some ''true'', required := Some True\<rparr>)
     ''gate'' [] arrayPush (hubWith (gateWorkflow ''true'')) =
   Continue None
     [JObj [(''stepId'', JStr ''gate''), (''stepName'', JStr ''gate''),
            (''result'', JObj [(''success'', JBool True), (''data'', JObj [(''result'', JBool True)]),
               (''error'', JUndefined), (''metadata'', JUndefined), (''cached'', JUndefined),
               (''duration'', JUndefined)])]]
     arrayPush (JObj []) (hubWith (gateWorkflow ''true''))
   \<and> execStep meddlingWorld ''gate'' (gateWorkflow ''results.push = 1'') sampleContext
     ((sampleStep ''gate'' StepCondition)\<lparr>condition := Some ''results.push = 1'', required := Some True\<rparr>)
     ''gate'' [] arrayPush (hubWith (gateWorkflow ''results.push = 1'')) =
   Halt \<lparr>success = False, data = Some (JObj [(''workflowResults'', JArr [])]),
         error = Some (''Workflow execution failed at step '' @ [CHR 0x27] @ ''gate'' @ [CHR 0x27]
                       @ '': TypeError: results.push is not a function''),
         metadata = None, cached = None, duration = None\<rparr>
     (hubWith (gateWorkflow ''results.push = 1''))
   \<and> execStep sampleWorld ''gate'' (gateWorkflow ''true'') sampleContext
     ((sampleStep ''gate'' StepCondition)\<lparr>condition := Some ''true'', required := Some True\<rparr>)
     ''gate'' [] arrayPush (hubWith (gateWorkflow ''true'')) =
     execStep sampleWorld ''gate'' (gateWorkflow ''true'') sampleContext
     ((sampleStep ''gate'' StepCondition)\<lparr>condition := Some ''true''\<rparr>)
     ''gate'' [] arrayPush (hubWith (gateWorkflow ''true''))
   \<and> map_option (success \<circ> fst)
       (workflowLoop [sampleWorld] ''gate'' (gateWorkflow ''true'') sampleContext (Some ''gate'') []
          arrayPush (hubWith (gateWorkflow ''true''))) = Some True"
proof -
  let ?g = "\<lambda>c. (sampleStep ''gate'' StepCondition)\<lparr>condition := Some c, required := Some True\<rparr>"
  have a1: "step_type (?g c) = StepCondition" for c
    by (simp add: sampleStep_def)
  have vars: "variables (gateWorkflow c) = JObj []" for c
    by (simp add: gateWorkflow_def sampleWorkflow_def)
  have ce: "conditionExpr (?g ''true'') = ''true''"
    "conditionExpr (?g ''results.push = 1'') = ''results.push = 1''"
    by (simp_all add: conditionExpr_def sampleStep_def)
  have o1: "evalExpr sampleWorld (conditionExpr (?g ''true'')) (variables (gateWorkflow ''true'')) []
              = pureOutcome (Some (JBool True)) (JObj []) []"
    by (simp add: ce vars sampleWorld_def)
  have o2: "evalExpr meddlingWorld (conditionExpr (?g ''results.push = 1''))
              (variables (gateWorkflow ''results.push = 1'')) []
              = \<lparr>ev_value = Some (JNum 1), ev_results = [],
                  ev_push = Some (\<lambda>xs x. Inl ''TypeError: results.push is not a function''),
                  ev_variables = JObj []\<rparr>"
    by (simp add: ce vars meddlingWorld_def sampleWorld_def)
  have ids: "step_id (?g c) = ''gate''" "step_name (?g c) = ''gate''"
    "onSuccess (?g c) = None" "onFailure (?g c) = None" for c
    by (simp_all add: sampleStep_def)
  have h: "hubWith (gateWorkflow c) =
             (hubWith (gateWorkflow c))\<lparr>workflows := AList.map_entry ''gate''
                (\<lambda>wfl. wfl\<lparr>variables := JObj []\<rparr>) (workflows (hubWith (gateWorkflow c)))\<rparr>" for c
    by (simp add: hubWith_def gateWorkflow_def sampleWorkflow_def)
  have h1: "hubWith (gateWorkflow ''true'') =
             (hubWith (gateWorkflow ''true''))\<lparr>workflows := AList.map_entry ''gate''
                (\<lambda>wfl. wfl\<lparr>variables := ev_variables (pureOutcome (Some (JBool True)) (JObj []) [])\<rparr>)
                (workflows (hubWith (gateWorkflow ''true'')))\<rparr>"
    using h [of "''true''"] by (simp add: pureOutcome_def)
  have h2: "hubWith (gateWorkflow ''results.push = 1'') =
             (hubWith (gateWorkflow ''results.push = 1''))\<lparr>workflows := AList.map_entry ''gate''
                (\<lambda>wfl. wfl\<lparr>variables := ev_variables \<lparr>ev_value = Some (JNum 1), ev_results = [],
                  ev_push = Some (\<lambda>xs x. Inl ''TypeError: results.push is not a function''),
                  ev_variables = JObj []\<rparr>\<rparr>)
                (workflows (hubWith (gateWorkflow ''results.push = 1'')))\<rparr>"
    using h [of "''results.push = 1''"] by simp
  note t1 = C10_condition_step_halts_only_when_push_throws [where push = arrayPush and ctx = sampleContext and cur = "''gate''"
                 and ws = "[sampleWorld]" and workflowId = "''gate''" and start = "Some ''gate''"
                 and log = "[]",
               OF a1 o1 refl refl refl h1]
  note t2 = C10_condition_step_halts_only_when_push_throws [where push = arrayPush and ctx = sampleContext and cur = "''gate''"
                 and e = "''TypeError: results.push is not a function''",
               OF a1 o2 refl refl refl h2]
  have s1: "execStep sampleWorld ''gate'' (gateWorkflow ''true'') sampleContext (?g ''true'')
     ''gate'' [] arrayPush (hubWith (gateWorkflow ''true'')) =
   Continue None
     [JObj [(''stepId'', JStr ''gate''), (''stepName'', JStr ''gate''),
            (''result'', JObj [(''success'', JBool True), (''data'', JObj [(''result'', JBool True)]),
               (''error'', JUndefined), (''metadata'', JUndefined), (''cached'', JUndefined),
               (''duration'', JUndefined)])]]
     arrayPush (JObj []) (hubWith (gateWorkflow ''true''))"
    by (simp add: execStep_condition a1 ce vars sampleWorld_def pureOutcome_def arrayPush_def
          logEntry_condition evaluateCondition_def ids storeVariables_def h [symmetric])
  have s2: "execStep meddlingWorld ''gate'' (gateWorkflow ''results.push = 1'') sampleContext
     (?g ''results.push = 1'') ''gate'' [] arrayPush (hubWith (gateWorkflow ''results.push = 1'')) =
   Halt \<lparr>success = False, data = Some (JObj [(''workflowResults'', JArr [])]),
         error = Some (''Workflow execution failed at step '' @ [CHR 0x27] @ ''gate'' @ [CHR 0x27]
                       @ '': TypeError: results.push is not a function''),
         metadata = None, cached = None, duration = None\<rparr>
     (hubWith (gateWorkflow ''results.push = 1''))"
    using t2 [THEN conjunct2, THEN conjunct1] by (simp add: ids)
  have s3: "execStep sampleWorld ''gate'' (gateWorkflow ''true'') sampleContext (?g ''true'')
     ''gate'' [] arrayPush (hubWith (gateWorkflow ''true'')) =
     execStep sampleWorld ''gate'' (gateWorkflow ''true'') sampleContext
     ((sampleStep ''gate'' StepCondition)\<lparr>condition := Some ''true''\<rparr>)
     ''gate'' [] arrayPush (hubWith (gateWorkflow ''true''))"
    using C10_condition_step_halts_only_when_push_throws [where step = "(sampleStep ''gate'' StepCondition)\<lparr>condition := Some ''true''\<rparr>"
               and w = sampleWorld and workflowId = "''gate''" and workflow = "gateWorkflow ''true''"
               and ctx = sampleContext and rq = "Some True" and cur = "''gate''"
               and results = "[]" and push = arrayPush and h = "hubWith (gateWorkflow ''true'')",
             OF _ refl refl refl refl refl, THEN conjunct2, THEN conjunct2, THEN conjunct1]
    by (simp add: sampleStep_def)
  have b: "\<forall>s \<in> set (steps (gateWorkflow ''true'')). step_type s = StepCondition"
    by (simp add: gateWorkflow_def sampleWorkflow_def sampleStep_def)
  have np: "\<forall>x \<in> set [sampleWorld]. \<forall>c vs rs. ev_push (evalExpr x c vs rs) = None"
    by (simp add: sampleWorld_def pureOutcome_def)
  have fnd: "find (\<lambda>s. step_id s = ''gate'') (steps (gateWorkflow ''true'')) = Some (?g ''true'')"
    by (simp add: gateWorkflow_def sampleWorkflow_def sampleStep_def)
  have run: "workflowLoop [sampleWorld] ''gate'' (gateWorkflow ''true'') sampleContext (Some ''gate'') []
          arrayPush (hubWith (gateWorkflow ''true''))
       = Some (completed ((gateWorkflow ''true'')\<lparr>variables := JObj []\<rparr>)
           [JObj [(''stepId'', JStr ''gate''), (''stepName'', JStr ''gate''),
            (''result'', JObj [(''success'', JBool True), (''data'', JObj [(''result'', JBool True)]),
               (''error'', JUndefined), (''metadata'', JUndefined), (''cached'', JUndefined),
               (''duration'', JUndefined)])]], hubWith (gateWorkflow ''true''))"
    by (simp add: fnd s1)
  from t1 [THEN conjunct2, THEN conjunct2, THEN conjunct2] b np run
  have s4: "success (completed ((gateWorkflow ''true'')\<lparr>variables := JObj []\<rparr>)
           [JObj [(''stepId'', JStr ''gate''), (''stepName'', JStr ''gate''),
            (''result'', JObj [(''success'', JBool True), (''data'', JObj [(''result'', JBool True)]),
               (''error'', JUndefined), (''metadata'', JUndefined), (''cached'', JUndefined),
               (''duration'', JUndefined)])]])"
    by blast
  from s1 s2 s3 s4 run show ?thesis by simp
qed

end
